theory Spec2Isabelle
  imports Main "HOL-Library.Word"
begin

section \<open>Go standard library: time.Time and time.Duration\<close>

text \<open>
  A \<open>time.Duration\<close> is an int64 count of nanoseconds: a 64-bit word read as
  two's complement by \<open>sint\<close>. A \<open>time.Time\<close> is modelled as
  the (unbounded) number of nanoseconds since the Unix epoch; the block times handled
  here are decoded from the wire and carry neither a monotonic clock reading nor a
  location that would influence \<open>Sub\<close> or \<open>Unix\<close>.
\<close>

type_synonym Time = int
type_synonym Duration = "64 word"

definition minDuration :: int where
  "minDuration = - (2 ^ 63)"

definition maxDuration :: int where
  "maxDuration = 2 ^ 63 - 1"

text \<open>
  \<open>t.Sub(u)\<close>: the duration \<open>t - u\<close>; when it does not fit a Duration, the maximum
  (or minimum) duration is returned.
\<close>

definition Sub :: "Time \<Rightarrow> Time \<Rightarrow> Duration" where
  "Sub t u =
     (let d = t - u in
      if d < minDuration then word_of_int minDuration
      else if maxDuration < d then word_of_int maxDuration
      else word_of_int d)"

text \<open>\<open>t.Add(d)\<close>: the time \<open>t + d\<close>.\<close>

definition Add :: "Time \<Rightarrow> Duration \<Rightarrow> Time" where
  "Add t d = t + sint d"

text \<open>\<open>t.Unix()\<close>: whole seconds since the epoch (the nanosecond part is never negative).\<close>

definition Unix :: "Time \<Rightarrow> int" where
  "Unix t = t div 1000000000"

section \<open>Small value types\<close>

type_synonym bytes = "8 word list"

record Fraction =
  Numerator :: int
  Denominator :: int

datatype MerkleRoot = MerkleRoot (Hash: bytes)

section \<open>The structs with their pointers\<close>

text \<open>
  In Go a \<open>tmproto.SignedHeader\<close> holds a pointer to its header and a pointer to its
  commit, and a \<open>types.Header\<close> and a \<open>types.ConsensusState\<close> hold a pointer to a
  validator set. The records of this section are those structs as they are handed
  around, a pointer being an address (\<open>None\<close> for nil); what the addresses hold is kept
  in a memory, defined further down. The records of the following sections are the same
  structs as values, with what their pointers lead to in the place of the pointers. In
  both, the header pointer of a signed header is taken as not nil.
\<close>

type_synonym addr = nat

record SignedHeader_ref =
  Header :: addr
  Commit :: "addr option"

record Header_ref =
  SignedHeader :: SignedHeader_ref
  ValidatorSet :: "addr option"

text \<open>
  Modelled from the spec: the declaration of \<open>types.ClientState\<close> is not among the
  sources; the fields are those of the spec's data model, as in the value record below.
\<close>

record ClientState_ref =
  ChainID :: string
  TrustLevel :: Fraction
  TrustingPeriod :: Duration
  UnbondingPeriod :: Duration
  MaxClockDrift :: Duration
  LastHeader :: Header_ref
  Frozen :: bool

record ConsensusState_ref =
  Height :: int
  Timestamp :: Time
  Root :: MerkleRoot
  ValidatorSet :: "addr option"

section \<open>Tendermint wire types (package tmproto)\<close>

record tmproto_PartSetHeader =
  Total :: "32 word"
  Hash :: bytes

record tmproto_BlockID =
  Hash :: bytes
  PartsHeader :: tmproto_PartSetHeader

record tmproto_Header =
  ChainID :: string
  Height :: int
  Time :: Time
  LastBlockID :: tmproto_BlockID
  LastCommitHash :: bytes
  DataHash :: bytes
  ValidatorsHash :: bytes
  NextValidatorsHash :: bytes
  ConsensusHash :: bytes
  AppHash :: bytes
  LastResultsHash :: bytes
  EvidenceHash :: bytes
  ProposerAddress :: bytes

record tmproto_CommitSig =
  BlockIdFlag :: nat
  ValidatorAddress :: bytes
  Timestamp :: Time
  Signature :: bytes

record tmproto_Commit =
  Height :: int
  Round :: int
  BlockID :: tmproto_BlockID
  Signatures :: "tmproto_CommitSig list"

text \<open>
  The header of a signed header is read by every getter below before anything else
  happens, so it is taken as present; the commit is only handed on to the library.
\<close>

record tmproto_SignedHeader =
  Header :: tmproto_Header
  Commit :: "tmproto_Commit option"

record tmproto_Validator =
  Address :: bytes
  PubKey :: bytes
  VotingPower :: int

record tmproto_ValidatorSet =
  Validators :: "tmproto_Validator list"
  Proposer :: "tmproto_Validator option"

section \<open>Package types of the Tendermint client (x/ibc/07-tendermint/types)\<close>

text \<open>
  The update payload, with the two fields \<open>CreateTestHeader\<close> fills in. The validator
  set is a pointer and may be nil.
\<close>

record Header =
  SignedHeader :: tmproto_SignedHeader
  ValidatorSet :: "tmproto_ValidatorSet option"

text \<open>
  Modelled from the spec: the declaration of \<open>types.ClientState\<close> is not among the
  sources. The fields are those of the spec's data model
  (\<open>chain_id, trust_level, trusting_period, unbonding_period, max_clock_drift,
  latest_header, frozen\<close>) under the names \<open>update.go\<close> uses for them.
\<close>

record ClientState =
  ChainID :: string
  TrustLevel :: Fraction
  TrustingPeriod :: Duration
  UnbondingPeriod :: Duration
  MaxClockDrift :: Duration
  LastHeader :: Header
  Frozen :: bool

text \<open>The consensus state as \<open>update\<close> builds it.\<close>

record ConsensusState =
  Height :: int
  Timestamp :: Time
  Root :: MerkleRoot
  ValidatorSet :: "tmproto_ValidatorSet option"

text \<open>
  Modelled from the spec: the getters of \<open>types.Header\<close> and \<open>types.ClientState\<close>
  and \<open>commitmenttypes.NewMerkleRoot\<close> are declared outside the sources. A header's
  height and time are those of its signed header; the client's latest height and
  timestamp are those of its last header; the root wraps the application hash.
\<close>

definition GetHeight :: "Header \<Rightarrow> int" where
  "GetHeight header = tmproto_Header.Height (Header (SignedHeader header))"

definition GetTime :: "Header \<Rightarrow> Time" where
  "GetTime header = Time (Header (SignedHeader header))"

definition GetLatestHeight :: "ClientState \<Rightarrow> int" where
  "GetLatestHeight clientState = GetHeight (LastHeader clientState)"

definition GetLatestTimestamp :: "ClientState \<Rightarrow> Time" where
  "GetLatestTimestamp clientState = GetTime (LastHeader clientState)"

definition GetChainID :: "ClientState \<Rightarrow> string" where
  "GetChainID clientState = ClientState.ChainID clientState"

definition ToTendermint :: "Fraction \<Rightarrow> int \<times> int" where
  "ToTendermint f = (Numerator f, Denominator f)"

definition NewMerkleRoot :: "bytes \<Rightarrow> MerkleRoot" where
  "NewMerkleRoot hash = MerkleRoot hash"

section \<open>Interfaces (x/ibc/02-client/exported)\<close>

text \<open>
  A value of an interface type is nil, a value of the Tendermint type, or a value of
  some other dynamic type (named by what \<open>%T\<close> prints).
\<close>

datatype clientexported_ClientState =
  Nil_ClientState
  | Tendermint_ClientState ClientState
  | Other_ClientState string

datatype clientexported_Header =
  Nil_Header
  | Tendermint_Header Header
  | Other_Header string

datatype clientexported_ConsensusState =
  Tendermint_ConsensusState ConsensusState

fun type_of_ClientState :: "clientexported_ClientState \<Rightarrow> string" where
  "type_of_ClientState Nil_ClientState = ''<nil>''"
| "type_of_ClientState (Tendermint_ClientState _) = ''types.ClientState''"
| "type_of_ClientState (Other_ClientState ty) = ty"

fun type_of_Header :: "clientexported_Header \<Rightarrow> string" where
  "type_of_Header Nil_Header = ''<nil>''"
| "type_of_Header (Tendermint_Header _) = ''types.Header''"
| "type_of_Header (Other_Header ty) = ty"

section \<open>Errors (types/errors)\<close>

text \<open>
  The registered errors this file returns, an error of the Tendermint library (known by
  its text), and \<open>sdkerrors.Wrapf\<close>, which keeps the wrapped error as cause under a
  format string and its arguments. \<open>sdkerrors.Wrap\<close> is \<open>Wrapf\<close> without arguments.
\<close>

datatype fmt_arg =
  Arg_Type string
  | Arg_String string
  | Arg_Time Time
  | Arg_Duration Duration
  | Arg_Height int

datatype error =
  ErrInvalidClientType
  | ErrInvalidHeader
  | ErrTrustingPeriodExpired
  | Tendermint_error string
  | Wrapf error string "fmt_arg list"

abbreviation Wrap :: "error \<Rightarrow> string \<Rightarrow> error" where
  "Wrap err description \<equiv> Wrapf err description []"

text \<open>The sign "less than or equal to" of the messages below, in UTF-8.\<close>

abbreviation leq_sign :: string where
  "leq_sign \<equiv> [CHR 0xE2, CHR 0x89, CHR 0xA4]"

text \<open>The registered or library error at the bottom of a chain of wrappers.\<close>

fun Cause :: "error \<Rightarrow> error" where
  "Cause (Wrapf err _ _) = Cause err"
| "Cause err = err"

section \<open>The Tendermint light-client library (external)\<close>

text \<open>
  \<open>tmtypes.SignedHeaderFromProto\<close>, \<open>tmtypes.ValidatorSetFromProto\<close> and
  \<open>lite.Verify\<close> belong to the Tendermint library and are parameters of the model,
  as are its native header and validator-set types \<open>'sh\<close> and \<open>'vs\<close>.
  \<open>Verify\<close> takes the chain id, the trusted signed header and validator set, the
  untrusted signed header and validator set, the trusting period, the current time,
  the maximum clock drift and the trust level.
\<close>

record ('sh, 'vs) tendermint =
  SignedHeaderFromProto :: "tmproto_SignedHeader \<Rightarrow> string + 'sh"
  ValidatorSetFromProto :: "tmproto_ValidatorSet option \<Rightarrow> string + 'vs"
  Verify :: "string \<Rightarrow> 'sh \<Rightarrow> 'vs \<Rightarrow> 'sh \<Rightarrow> 'vs \<Rightarrow> Duration \<Rightarrow> Time \<Rightarrow> Duration
               \<Rightarrow> int \<times> int \<Rightarrow> string option"

text \<open>The calls made into the library, in the order they happen.\<close>

datatype lib_call =
  Call_SignedHeaderFromProto
  | Call_ValidatorSetFromProto
  | Call_Verify

section \<open>update.go\<close>

text \<open>
  \<open>checkValidity\<close>: the error it returns (\<open>None\<close> for nil) together with the library
  calls it made on the way.
\<close>

definition checkValidity ::
  "('sh, 'vs) tendermint \<Rightarrow> ClientState \<Rightarrow> Header \<Rightarrow> Time \<Rightarrow> lib_call list \<times> error option"
where
  "checkValidity tm clientState header currentTimestamp =
    (if sint (Sub currentTimestamp (GetLatestTimestamp clientState))
          \<ge> sint (TrustingPeriod clientState) then
       ([], Some (Wrapf ErrTrustingPeriodExpired
          ''current timestamp minus the latest trusted client state timestamp is greater than or equal to the trusting period (%s >= %s)''
          [Arg_Duration (Sub currentTimestamp (GetLatestTimestamp clientState)),
           Arg_Duration (TrustingPeriod clientState)]))
     else if sint (Sub (GetTime header) (GetLatestTimestamp clientState))
          \<ge> sint (TrustingPeriod clientState) then
       ([], Some (Wrap ErrInvalidHeader
          ''header blocktime is outside trusting period from last client timestamp''))
     else if Unix (GetTime header) \<le> Unix (GetLatestTimestamp clientState) then
       ([], Some (Wrapf ErrInvalidHeader
          (''header blocktime '' @ leq_sign @ '' latest client state block time (%s ''
             @ leq_sign @ '' %s)'')
          [Arg_Time (GetTime header), Arg_Time (GetLatestTimestamp clientState)]))
     else if GetHeight header \<le> GetLatestHeight clientState then
       ([], Some (Wrapf ErrInvalidHeader
          (''header height '' @ leq_sign @ '' latest client state height (%d ''
             @ leq_sign @ '' %d)'')
          [Arg_Height (GetHeight header), Arg_Height (GetLatestHeight clientState)]))
     else
       (case SignedHeaderFromProto tm (SignedHeader (LastHeader clientState)) of
          Inl err \<Rightarrow>
            ([Call_SignedHeaderFromProto],
             Some (Wrapf ErrInvalidHeader ''invalid last signed header: %s'' [Arg_String err]))
        | Inr trustedSignedHeader \<Rightarrow>
       (case ValidatorSetFromProto tm (Header.ValidatorSet (LastHeader clientState)) of
          Inl err \<Rightarrow>
            ([Call_SignedHeaderFromProto, Call_ValidatorSetFromProto],
             Some (Wrapf ErrInvalidHeader ''invalid last validator set: %s'' [Arg_String err]))
        | Inr trustedValset \<Rightarrow>
       (case SignedHeaderFromProto tm (SignedHeader header) of
          Inl err \<Rightarrow>
            ([Call_SignedHeaderFromProto, Call_ValidatorSetFromProto,
              Call_SignedHeaderFromProto],
             Some (Wrapf ErrInvalidHeader ''invalid new signed header: %s'' [Arg_String err]))
        | Inr untrustedSignedHeader \<Rightarrow>
       (case ValidatorSetFromProto tm (Header.ValidatorSet header) of
          Inl err \<Rightarrow>
            ([Call_SignedHeaderFromProto, Call_ValidatorSetFromProto,
              Call_SignedHeaderFromProto, Call_ValidatorSetFromProto],
             Some (Wrapf ErrInvalidHeader ''invalid new validator set: %s'' [Arg_String err]))
        | Inr untrustedValset \<Rightarrow>
       (case Verify tm (GetChainID clientState) trustedSignedHeader trustedValset
               untrustedSignedHeader untrustedValset (TrustingPeriod clientState)
               currentTimestamp (MaxClockDrift clientState)
               (ToTendermint (TrustLevel clientState)) of
          Some err \<Rightarrow>
            ([Call_SignedHeaderFromProto, Call_ValidatorSetFromProto,
              Call_SignedHeaderFromProto, Call_ValidatorSetFromProto, Call_Verify],
             Some (Wrap (Tendermint_error err) ''failed to verify header''))
        | None \<Rightarrow>
            ([Call_SignedHeaderFromProto, Call_ValidatorSetFromProto,
              Call_SignedHeaderFromProto, Call_ValidatorSetFromProto, Call_Verify],
             None)))))))"

text \<open>\<open>update\<close>: the client state with its last header replaced, and the new consensus state.\<close>

definition update :: "ClientState \<Rightarrow> Header \<Rightarrow> ClientState \<times> ConsensusState" where
  "update clientState header =
    (clientState\<lparr>LastHeader := header\<rparr>,
     \<lparr>Height = GetHeight header,
      Timestamp = GetTime header,
      Root = NewMerkleRoot (AppHash (Header (SignedHeader header))),
      ValidatorSet = Header.ValidatorSet header\<rparr>)"

text \<open>
  \<open>CheckValidityAndUpdateState\<close>: the three results of the Go function (\<open>None\<close> for
  nil), together with the library calls made.
\<close>

type_synonym update_result =
  "clientexported_ClientState option \<times> clientexported_ConsensusState option \<times> error option"

definition CheckValidityAndUpdateState ::
  "('sh, 'vs) tendermint \<Rightarrow> clientexported_ClientState \<Rightarrow> clientexported_Header \<Rightarrow> Time
     \<Rightarrow> lib_call list \<times> update_result"
where
  "CheckValidityAndUpdateState tm clientState header currentTimestamp =
    (case clientState of
       Tendermint_ClientState tmClientState \<Rightarrow>
         (case header of
            Tendermint_Header tmHeader \<Rightarrow>
              (case checkValidity tm tmClientState tmHeader currentTimestamp of
                 (calls, Some err) \<Rightarrow> (calls, (None, None, Some err))
               | (calls, None) \<Rightarrow>
                   (let (tmClientState', consensusState) = update tmClientState tmHeader
                    in (calls,
                        (Some (Tendermint_ClientState tmClientState'),
                         Some (Tendermint_ConsensusState consensusState),
                         None))))
          | _ \<Rightarrow>
              ([], (None, None,
                 Some (Wrapf ErrInvalidHeader ''expected type %T, got %T''
                   [Arg_Type ''types.Header'', Arg_Type (type_of_Header header)]))))
     | _ \<Rightarrow>
         ([], (None, None,
            Some (Wrapf ErrInvalidClientType ''expected type %T, got %T''
              [Arg_Type ''types.ClientState'', Arg_Type (type_of_ClientState clientState)]))))"

section \<open>update.go on structs with pointers\<close>

text \<open>
  The memory: what each address holds, for the three kinds of objects that are reached
  through pointers.
\<close>

record memory =
  Headers :: "addr \<Rightarrow> tmproto_Header"
  Commits :: "addr \<Rightarrow> tmproto_Commit"
  ValidatorSets :: "addr \<Rightarrow> tmproto_ValidatorSet"

text \<open>The value of a struct: the struct with what its pointers lead to in the memory.\<close>

definition load_SignedHeader :: "memory \<Rightarrow> SignedHeader_ref \<Rightarrow> tmproto_SignedHeader" where
  "load_SignedHeader mem pb =
     \<lparr>Header = Headers mem (SignedHeader_ref.Header pb),
      Commit = map_option (Commits mem) (SignedHeader_ref.Commit pb)\<rparr>"

definition load_ValidatorSet :: "memory \<Rightarrow> addr option \<Rightarrow> tmproto_ValidatorSet option" where
  "load_ValidatorSet mem vp = map_option (ValidatorSets mem) vp"

definition load_Header :: "memory \<Rightarrow> Header_ref \<Rightarrow> Header" where
  "load_Header mem header =
     \<lparr>SignedHeader = load_SignedHeader mem (Header_ref.SignedHeader header),
      Header.ValidatorSet = load_ValidatorSet mem (Header_ref.ValidatorSet header)\<rparr>"

definition load_ClientState :: "memory \<Rightarrow> ClientState_ref \<Rightarrow> ClientState" where
  "load_ClientState mem clientState =
     \<lparr>ClientState.ChainID = ClientState_ref.ChainID clientState,
      TrustLevel = ClientState_ref.TrustLevel clientState,
      TrustingPeriod = ClientState_ref.TrustingPeriod clientState,
      UnbondingPeriod = ClientState_ref.UnbondingPeriod clientState,
      MaxClockDrift = ClientState_ref.MaxClockDrift clientState,
      LastHeader = load_Header mem (ClientState_ref.LastHeader clientState),
      Frozen = ClientState_ref.Frozen clientState\<rparr>"

definition load_ConsensusState :: "memory \<Rightarrow> ConsensusState_ref \<Rightarrow> ConsensusState" where
  "load_ConsensusState mem consensusState =
     \<lparr>Height = ConsensusState_ref.Height consensusState,
      Timestamp = ConsensusState_ref.Timestamp consensusState,
      Root = ConsensusState_ref.Root consensusState,
      ValidatorSet = load_ValidatorSet mem (ConsensusState_ref.ValidatorSet consensusState)\<rparr>"

text \<open>
  A value of an interface type, over structs with pointers: nil, a value of the
  Tendermint type, or a value of another dynamic type; and its value in a memory.
\<close>

datatype 'a interface =
  Nil_interface
  | Tendermint_struct 'a
  | Other_struct string

fun value_ClientState :: "memory \<Rightarrow> ClientState_ref interface \<Rightarrow> clientexported_ClientState" where
  "value_ClientState mem Nil_interface = Nil_ClientState"
| "value_ClientState mem (Tendermint_struct clientState) =
     Tendermint_ClientState (load_ClientState mem clientState)"
| "value_ClientState mem (Other_struct ty) = Other_ClientState ty"

fun value_Header :: "memory \<Rightarrow> Header_ref interface \<Rightarrow> clientexported_Header" where
  "value_Header mem Nil_interface = Nil_Header"
| "value_Header mem (Tendermint_struct header) = Tendermint_Header (load_Header mem header)"
| "value_Header mem (Other_struct ty) = Other_Header ty"

fun value_ConsensusState ::
  "memory \<Rightarrow> ConsensusState_ref interface \<Rightarrow> clientexported_ConsensusState option" where
  "value_ConsensusState mem (Tendermint_struct consensusState) =
     Some (Tendermint_ConsensusState (load_ConsensusState mem consensusState))"
| "value_ConsensusState mem _ = None"

text \<open>
  The library, when its arguments are pointers. What a call returns is what the library
  of the preceding sections returns on the value its argument points to at the time of
  the call. What a call leaves in the memory is a function of the memory before the call
  and of the pointers handed over: \<open>SignedHeaderFromProto\<close> is handed the address of a
  signed header struct (a copy local to \<open>checkValidity\<close>, whose two pointers are those of
  the caller's struct), \<open>ValidatorSetFromProto\<close> a pointer to a validator set, and
  \<open>Verify\<close> the converted objects, which may share memory with what they were converted
  from.
\<close>

record ('sh, 'vs) tendermint_mem = "('sh, 'vs) tendermint" +
  SignedHeaderFromProto_writes :: "memory \<Rightarrow> SignedHeader_ref \<Rightarrow> memory"
  ValidatorSetFromProto_writes :: "memory \<Rightarrow> addr option \<Rightarrow> memory"
  Verify_writes :: "memory \<Rightarrow> memory"

text \<open>
  \<open>checkValidity\<close>, with the memory as the calls leave it. The function itself writes to
  no address: its struct arguments are copies.
\<close>

definition checkValidity_mem ::
  "('sh, 'vs) tendermint_mem \<Rightarrow> memory \<Rightarrow> ClientState_ref \<Rightarrow> Header_ref \<Rightarrow> Time
     \<Rightarrow> memory \<times> lib_call list \<times> error option"
where
  "checkValidity_mem tm mem clientState header currentTimestamp =
    (let latestTimestamp = GetLatestTimestamp (load_ClientState mem clientState);
         latestHeight = GetLatestHeight (load_ClientState mem clientState);
         headerTime = GetTime (load_Header mem header);
         headerHeight = GetHeight (load_Header mem header);
         lastHeader = ClientState_ref.LastHeader clientState
     in
     if sint (Sub currentTimestamp latestTimestamp)
          \<ge> sint (ClientState_ref.TrustingPeriod clientState) then
       (mem, [], Some (Wrapf ErrTrustingPeriodExpired
          ''current timestamp minus the latest trusted client state timestamp is greater than or equal to the trusting period (%s >= %s)''
          [Arg_Duration (Sub currentTimestamp latestTimestamp),
           Arg_Duration (ClientState_ref.TrustingPeriod clientState)]))
     else if sint (Sub headerTime latestTimestamp)
          \<ge> sint (ClientState_ref.TrustingPeriod clientState) then
       (mem, [], Some (Wrap ErrInvalidHeader
          ''header blocktime is outside trusting period from last client timestamp''))
     else if Unix headerTime \<le> Unix latestTimestamp then
       (mem, [], Some (Wrapf ErrInvalidHeader
          (''header blocktime '' @ leq_sign @ '' latest client state block time (%s ''
             @ leq_sign @ '' %s)'')
          [Arg_Time headerTime, Arg_Time latestTimestamp]))
     else if headerHeight \<le> latestHeight then
       (mem, [], Some (Wrapf ErrInvalidHeader
          (''header height '' @ leq_sign @ '' latest client state height (%d ''
             @ leq_sign @ '' %d)'')
          [Arg_Height headerHeight, Arg_Height latestHeight]))
     else
       (let mem1 = SignedHeaderFromProto_writes tm mem (Header_ref.SignedHeader lastHeader) in
        case SignedHeaderFromProto tm (load_SignedHeader mem (Header_ref.SignedHeader lastHeader)) of
          Inl err \<Rightarrow>
            (mem1, [Call_SignedHeaderFromProto],
             Some (Wrapf ErrInvalidHeader ''invalid last signed header: %s'' [Arg_String err]))
        | Inr trustedSignedHeader \<Rightarrow>
       (let mem2 = ValidatorSetFromProto_writes tm mem1 (Header_ref.ValidatorSet lastHeader) in
        case ValidatorSetFromProto tm (load_ValidatorSet mem1 (Header_ref.ValidatorSet lastHeader)) of
          Inl err \<Rightarrow>
            (mem2, [Call_SignedHeaderFromProto, Call_ValidatorSetFromProto],
             Some (Wrapf ErrInvalidHeader ''invalid last validator set: %s'' [Arg_String err]))
        | Inr trustedValset \<Rightarrow>
       (let mem3 = SignedHeaderFromProto_writes tm mem2 (Header_ref.SignedHeader header) in
        case SignedHeaderFromProto tm (load_SignedHeader mem2 (Header_ref.SignedHeader header)) of
          Inl err \<Rightarrow>
            (mem3, [Call_SignedHeaderFromProto, Call_ValidatorSetFromProto,
              Call_SignedHeaderFromProto],
             Some (Wrapf ErrInvalidHeader ''invalid new signed header: %s'' [Arg_String err]))
        | Inr untrustedSignedHeader \<Rightarrow>
       (let mem4 = ValidatorSetFromProto_writes tm mem3 (Header_ref.ValidatorSet header) in
        case ValidatorSetFromProto tm (load_ValidatorSet mem3 (Header_ref.ValidatorSet header)) of
          Inl err \<Rightarrow>
            (mem4, [Call_SignedHeaderFromProto, Call_ValidatorSetFromProto,
              Call_SignedHeaderFromProto, Call_ValidatorSetFromProto],
             Some (Wrapf ErrInvalidHeader ''invalid new validator set: %s'' [Arg_String err]))
        | Inr untrustedValset \<Rightarrow>
       (let mem5 = Verify_writes tm mem4 in
        case Verify tm (ClientState_ref.ChainID clientState) trustedSignedHeader trustedValset
               untrustedSignedHeader untrustedValset (ClientState_ref.TrustingPeriod clientState)
               currentTimestamp (ClientState_ref.MaxClockDrift clientState)
               (ToTendermint (ClientState_ref.TrustLevel clientState)) of
          Some err \<Rightarrow>
            (mem5, [Call_SignedHeaderFromProto, Call_ValidatorSetFromProto,
              Call_SignedHeaderFromProto, Call_ValidatorSetFromProto, Call_Verify],
             Some (Wrap (Tendermint_error err) ''failed to verify header''))
        | None \<Rightarrow>
            (mem5, [Call_SignedHeaderFromProto, Call_ValidatorSetFromProto,
              Call_SignedHeaderFromProto, Call_ValidatorSetFromProto, Call_Verify],
             None)))))))"

text \<open>
  \<open>update\<close>: the assignment is to the function's own copy of the client state, and the
  consensus state takes over the validator-set pointer of the header; the application
  hash is read from the memory.
\<close>

definition update_mem ::
  "memory \<Rightarrow> ClientState_ref \<Rightarrow> Header_ref \<Rightarrow> ClientState_ref \<times> ConsensusState_ref"
where
  "update_mem mem clientState header =
    (clientState\<lparr>ClientState_ref.LastHeader := header\<rparr>,
     \<lparr>ConsensusState_ref.Height = GetHeight (load_Header mem header),
      Timestamp = GetTime (load_Header mem header),
      Root = NewMerkleRoot
        (AppHash (Headers mem (SignedHeader_ref.Header (Header_ref.SignedHeader header)))),
      ValidatorSet = Header_ref.ValidatorSet header\<rparr>)"

text \<open>
  \<open>CheckValidityAndUpdateState\<close>: the memory after the call, the library calls made,
  and the three results.
\<close>

definition CheckValidityAndUpdateState_mem ::
  "('sh, 'vs) tendermint_mem \<Rightarrow> memory \<Rightarrow> ClientState_ref interface
     \<Rightarrow> Header_ref interface \<Rightarrow> Time
     \<Rightarrow> memory \<times> lib_call list
        \<times> (ClientState_ref interface option \<times> ConsensusState_ref interface option
           \<times> error option)"
where
  "CheckValidityAndUpdateState_mem tm mem clientState header currentTimestamp =
    (case clientState of
       Tendermint_struct tmClientState \<Rightarrow>
         (case header of
            Tendermint_struct tmHeader \<Rightarrow>
              (case checkValidity_mem tm mem tmClientState tmHeader currentTimestamp of
                 (mem', calls, Some err) \<Rightarrow> (mem', calls, (None, None, Some err))
               | (mem', calls, None) \<Rightarrow>
                   (let (tmClientState', consensusState) = update_mem mem' tmClientState tmHeader
                    in (mem', calls,
                        (Some (Tendermint_struct tmClientState'),
                         Some (Tendermint_struct consensusState),
                         None))))
          | _ \<Rightarrow>
              (mem, [], (None, None,
                 Some (Wrapf ErrInvalidHeader ''expected type %T, got %T''
                   [Arg_Type ''types.Header'',
                    Arg_Type (type_of_Header (value_Header mem header))]))))
     | _ \<Rightarrow>
         (mem, [], (None, None,
            Some (Wrapf ErrInvalidClientType ''expected type %T, got %T''
              [Arg_Type ''types.ClientState'',
               Arg_Type (type_of_ClientState (value_ClientState mem clientState))]))))"

section \<open>Test values (types/test_utils.go)\<close>

text \<open>
  Hashing and signing belong to the Tendermint library. The test values use stand-ins
  for them: \<open>tmhash_Sum\<close> gives back the bytes of its argument, a validator set hashes
  to the concatenation of its validators' addresses, a header hashes to its validators
  hash followed by its application hash, and \<open>MakeCommit\<close> gives every validator whose
  address is among the signers a commit signature (flag 2) made of its address, and
  every other validator an absent one (flag 1).
\<close>

definition tmhash_Sum :: "string \<Rightarrow> bytes" where
  "tmhash_Sum bz = map (\<lambda>c. of_nat (of_char c)) bz"

definition ValidatorSet_Hash :: "tmproto_ValidatorSet \<Rightarrow> bytes" where
  "ValidatorSet_Hash valSet = concat (map Address (Validators valSet))"

definition Header_Hash :: "tmproto_Header \<Rightarrow> bytes" where
  "Header_Hash tmHeader = ValidatorsHash tmHeader @ AppHash tmHeader"

definition MakeCommit ::
  "tmproto_BlockID \<Rightarrow> int \<Rightarrow> int \<Rightarrow> tmproto_ValidatorSet \<Rightarrow> bytes list \<Rightarrow> Time
     \<Rightarrow> tmproto_Commit"
where
  "MakeCommit blockID height round valSet signers now =
     \<lparr>tmproto_Commit.Height = height,
      Round = round,
      BlockID = blockID,
      Signatures =
        map (\<lambda>val.
               if Address val \<in> set signers
               then \<lparr>BlockIdFlag = 2, ValidatorAddress = Address val, Timestamp = now,
                     Signature = Address val\<rparr>
               else \<lparr>BlockIdFlag = 1, ValidatorAddress = [], Timestamp = 0, Signature = []\<rparr>)
            (Validators valSet)\<rparr>"

definition MakeBlockID :: "bytes \<Rightarrow> 32 word \<Rightarrow> bytes \<Rightarrow> tmproto_BlockID" where
  "MakeBlockID hash partSetSize partSetHash =
     \<lparr>tmproto_BlockID.Hash = hash,
      PartsHeader = \<lparr>Total = partSetSize, tmproto_PartSetHeader.Hash = partSetHash\<rparr>\<rparr>"

text \<open>
  \<open>CreateTestHeader\<close>: validators hash and next-validators hash are both the hash of
  the given validator set, the proposer address is that of its proposer (the sets used
  below have one; on a nil proposer the Go function panics), and the commit is signed by
  the given signers.
\<close>

definition CreateTestHeader ::
  "string \<Rightarrow> int \<Rightarrow> Time \<Rightarrow> tmproto_ValidatorSet \<Rightarrow> bytes list \<Rightarrow> Header"
where
  "CreateTestHeader chainID height timestamp valSet signers =
     (let vsetHash = ValidatorSet_Hash valSet;
          tmHeader =
            \<lparr>tmproto_Header.ChainID = chainID,
             tmproto_Header.Height = height,
             Time = timestamp,
             LastBlockID = MakeBlockID (replicate 32 0) 2147483647 (replicate 32 0),
             LastCommitHash = tmhash_Sum ''last_commit_hash'',
             DataHash = tmhash_Sum ''data_hash'',
             ValidatorsHash = vsetHash,
             NextValidatorsHash = vsetHash,
             ConsensusHash = tmhash_Sum ''consensus_hash'',
             AppHash = tmhash_Sum ''app_hash'',
             LastResultsHash = tmhash_Sum ''last_results_hash'',
             EvidenceHash = tmhash_Sum ''evidence_hash'',
             ProposerAddress =
               (case Proposer valSet of None \<Rightarrow> [] | Some proposer \<Rightarrow> Address proposer)\<rparr>;
          blockID = MakeBlockID (Header_Hash tmHeader) 3 (tmhash_Sum ''part_set'');
          commit = MakeCommit blockID height 1 valSet signers timestamp
      in \<lparr>SignedHeader = \<lparr>Header = tmHeader, Commit = Some commit\<rparr>,
          Header.ValidatorSet = Some valSet\<rparr>)"

text \<open>
  A one-validator set; the header of chain "gaia" at a given height and time for a given
  validator set, signed by all its validators; a client whose last header is at height 1
  and time 0, with a trusting period of two weeks.
\<close>

definition test_validators :: "bytes \<Rightarrow> tmproto_ValidatorSet" where
  "test_validators addr =
     \<lparr>Validators = [\<lparr>Address = addr, PubKey = [2], VotingPower = 10\<rparr>],
      Proposer = Some \<lparr>Address = addr, PubKey = [2], VotingPower = 10\<rparr>\<rparr>"

definition test_header :: "int \<Rightarrow> Time \<Rightarrow> tmproto_ValidatorSet \<Rightarrow> Header" where
  "test_header height timestamp valSet =
     CreateTestHeader ''gaia'' height timestamp valSet (map Address (Validators valSet))"

definition test_client :: "bool \<Rightarrow> ClientState" where
  "test_client frozen =
     \<lparr>ClientState.ChainID = ''gaia'',
      TrustLevel = \<lparr>Numerator = 1, Denominator = 3\<rparr>,
      TrustingPeriod = 1209600000000000,
      UnbondingPeriod = 1814400000000000,
      MaxClockDrift = 10000000000,
      LastHeader = test_header 1 0 (test_validators [1]),
      Frozen = frozen\<rparr>"

text \<open>
  A header as a chain makes it when its validator set changes with the next block: the
  test header of height 2 at 1 s for the validator set of address 1, announcing the
  validator set of address 3 as the next one.
\<close>

definition rotation_header :: Header where
  "rotation_header =
     (let header = test_header 2 1000000000 (test_validators [1]);
          signedHeader = SignedHeader header
      in header
          \<lparr>SignedHeader := signedHeader
             \<lparr>Header := (Header signedHeader)
                \<lparr>NextValidatorsHash := ValidatorSet_Hash (test_validators [3])\<rparr>\<rparr>\<rparr>)"

text \<open>
  A library for the tests. It refuses to convert a nil validator set. Its \<open>Verify\<close>
  refuses an untrusted validator set that does not hash to the validators hash of the
  untrusted header, and an untrusted header right above the trusted one whose validators
  hash is not the next-validators hash of the trusted one; the outcome of the signature
  checks, which are not modelled, is the given verdict.
\<close>

definition test_lib ::
  "string option \<Rightarrow> (tmproto_SignedHeader, tmproto_ValidatorSet) tendermint"
where
  "test_lib verdict =
     \<lparr>SignedHeaderFromProto = Inr,
      ValidatorSetFromProto =
        (\<lambda>vp. case vp of None \<Rightarrow> Inl ''nil validator set'' | Some vals \<Rightarrow> Inr vals),
      Verify =
        (\<lambda>chainID trustedHeader trustedVals untrustedHeader untrustedVals
            trustingPeriod now maxClockDrift trustLevel.
           if ValidatorSet_Hash untrustedVals \<noteq> ValidatorsHash (Header untrustedHeader)
           then Some ''validator set does not match the validators hash of the header''
           else if tmproto_Header.Height (Header untrustedHeader)
                     = tmproto_Header.Height (Header trustedHeader) + 1
                   \<and> ValidatorsHash (Header untrustedHeader)
                     \<noteq> NextValidatorsHash (Header trustedHeader)
           then Some ''validators hash is not the next-validators hash of the trusted header''
           else verdict)\<rparr>"

lemmas test_defs =
  tmhash_Sum_def ValidatorSet_Hash_def Header_Hash_def MakeCommit_def MakeBlockID_def
  CreateTestHeader_def test_validators_def test_header_def test_client_def
  rotation_header_def test_lib_def Let_def

text \<open>
  A memory in which address \<open>a\<close> holds the header and the commit of the test header of
  height \<open>a\<close> at \<open>a - 1\<close> seconds, and the validator set of address 1; the header
  struct whose three pointers are \<open>a\<close>; the test client as a struct, its last header
  being the header struct of address 1; and the test library, which writes nothing.
\<close>

definition test_memory :: memory where
  "test_memory =
     \<lparr>Headers = (\<lambda>a. Header (SignedHeader
         (test_header (int a) ((int a - 1) * 1000000000) (test_validators [1])))),
      Commits = (\<lambda>a. the (Commit (SignedHeader
         (test_header (int a) ((int a - 1) * 1000000000) (test_validators [1]))))),
      ValidatorSets = (\<lambda>a. test_validators [1])\<rparr>"

definition test_header_ref :: "addr \<Rightarrow> Header_ref" where
  "test_header_ref a =
     \<lparr>Header_ref.SignedHeader = \<lparr>SignedHeader_ref.Header = a, Commit = Some a\<rparr>,
      ValidatorSet = Some a\<rparr>"

definition test_client_ref :: "bool \<Rightarrow> ClientState_ref" where
  "test_client_ref frozen =
     \<lparr>ClientState_ref.ChainID = ''gaia'',
      TrustLevel = \<lparr>Numerator = 1, Denominator = 3\<rparr>,
      TrustingPeriod = 1209600000000000,
      UnbondingPeriod = 1814400000000000,
      MaxClockDrift = 10000000000,
      LastHeader = test_header_ref 1,
      Frozen = frozen\<rparr>"

definition test_lib_mem ::
  "string option \<Rightarrow> (tmproto_SignedHeader, tmproto_ValidatorSet) tendermint_mem"
where
  "test_lib_mem verdict =
     \<lparr>SignedHeaderFromProto = SignedHeaderFromProto (test_lib verdict),
      ValidatorSetFromProto = ValidatorSetFromProto (test_lib verdict),
      Verify = Verify (test_lib verdict),
      SignedHeaderFromProto_writes = (\<lambda>mem pb. mem),
      ValidatorSetFromProto_writes = (\<lambda>mem vp. mem),
      Verify_writes = (\<lambda>mem. mem)\<rparr>"

lemmas mem_defs =
  CheckValidityAndUpdateState_mem_def checkValidity_mem_def update_mem_def
  load_SignedHeader_def load_ValidatorSet_def load_Header_def load_ClientState_def
  load_ConsensusState_def test_memory_def test_header_ref_def test_client_ref_def
  test_lib_mem_def

section \<open>Durations and Unix seconds\<close>

lemma sint_Duration_of_int:
  "minDuration \<le> d \<Longrightarrow> d \<le> maxDuration \<Longrightarrow> sint (word_of_int d :: Duration) = d"
  by (simp add: minDuration_def maxDuration_def sint_sbintrunc' signed_take_bit_int_eq_self)

lemma sint_Duration_range: "minDuration \<le> sint (d :: Duration) \<and> sint d \<le> maxDuration"
  using sint_ge [of d] sint_lt [of d] by (simp add: minDuration_def maxDuration_def)

text \<open>\<open>Sub\<close> is the difference clamped to the range of a Duration.\<close>

lemma sint_Sub: "sint (Sub t u) = max minDuration (min maxDuration (t - u))"
proof -
  define d where "d = t - u"
  have range: "minDuration \<le> maxDuration"
    by (simp add: minDuration_def maxDuration_def)
  consider (low) "d < minDuration" | (high) "maxDuration < d"
    | (fits) "minDuration \<le> d" "d \<le> maxDuration"
    by linarith
  then have "sint (if d < minDuration then word_of_int minDuration
                   else if maxDuration < d then word_of_int maxDuration
                   else word_of_int d :: Duration)
             = max minDuration (min maxDuration d)"
  proof cases
    case low
    with range show ?thesis by (simp add: sint_Duration_of_int)
  next
    case high
    with range show ?thesis by (simp add: sint_Duration_of_int)
  next
    case fits
    then show ?thesis by (simp add: sint_Duration_of_int)
  qed
  then show ?thesis
    unfolding Sub_def Let_def d_def .
qed

lemma Unix_mono: "t \<le> u \<Longrightarrow> Unix t \<le> Unix u"
  by (simp add: Unix_def zdiv_mono1)

section \<open>The two functions on Tendermint values\<close>

text \<open>Each of the four temporal checks rejects before any call into the library.\<close>

lemma checkValidity_rejects_early:
  assumes "sint (TrustingPeriod cs) \<le> sint (Sub now (GetLatestTimestamp cs))
         \<or> sint (TrustingPeriod cs) \<le> sint (Sub (GetTime h) (GetLatestTimestamp cs))
         \<or> Unix (GetTime h) \<le> Unix (GetLatestTimestamp cs)
         \<or> GetHeight h \<le> GetLatestHeight cs"
  shows "\<exists>err. checkValidity tm cs h now = ([], Some err)"
  using assms by (auto simp: checkValidity_def)

lemma CheckValidityAndUpdateState_Tendermint:
  "CheckValidityAndUpdateState tm (Tendermint_ClientState cs) (Tendermint_Header h) now =
     (case checkValidity tm cs h now of
        (calls, Some err) \<Rightarrow> (calls, (None, None, Some err))
      | (calls, None) \<Rightarrow>
          (calls,
           (Some (Tendermint_ClientState (cs\<lparr>LastHeader := h\<rparr>)),
            Some (Tendermint_ConsensusState
              \<lparr>Height = GetHeight h,
               Timestamp = GetTime h,
               Root = NewMerkleRoot (AppHash (Header (SignedHeader h))),
               ValidatorSet = Header.ValidatorSet h\<rparr>),
            None)))"
  by (simp add: CheckValidityAndUpdateState_def update_def split: prod.splits option.splits)

lemma checkValidity_Frozen:
  "checkValidity tm (cs\<lparr>Frozen := b\<rparr>) h now = checkValidity tm cs h now"
  by (simp add: checkValidity_def GetLatestTimestamp_def GetLatestHeight_def GetChainID_def
        cong: sum.case_cong option.case_cong)

text \<open>A call that returns no error was given Tendermint values that pass \<open>checkValidity\<close>.\<close>

lemma CheckValidityAndUpdateState_success:
  assumes "snd (snd (snd (CheckValidityAndUpdateState tm clientState header now))) = None"
  shows "\<exists>cs h. clientState = Tendermint_ClientState cs \<and> header = Tendermint_Header h
           \<and> snd (checkValidity tm cs h now) = None"
proof (cases clientState)
  case (Tendermint_ClientState cs)
  show ?thesis
  proof (cases header)
    case (Tendermint_Header h)
    with assms Tendermint_ClientState show ?thesis
      by (auto simp: CheckValidityAndUpdateState_Tendermint split: prod.splits option.splits)
  qed (use assms Tendermint_ClientState in \<open>simp_all add: CheckValidityAndUpdateState_def\<close>)
qed (use assms in \<open>simp_all add: CheckValidityAndUpdateState_def\<close>)

lemma CheckValidityAndUpdateState_error:
  "snd (snd (snd (CheckValidityAndUpdateState tm (Tendermint_ClientState cs)
      (Tendermint_Header h) now))) = snd (checkValidity tm cs h now)"
  by (simp add: CheckValidityAndUpdateState_Tendermint split: prod.splits option.splits)

lemmas eval_defs =
  CheckValidityAndUpdateState_def checkValidity_def update_def test_defs
  GetLatestTimestamp_def GetTime_def GetHeight_def GetLatestHeight_def GetChainID_def
  NewMerkleRoot_def ToTendermint_def sint_Sub minDuration_def maxDuration_def Unix_def Add_def

section \<open>Frozen clients\<close>

text \<open>
  C1 (as stated, refuted): a frozen client is not turned away. The frozen test client,
  offered the header at height 2 and time 1 s at current time 5 ns, with a library that
  accepts: all five library calls are made, \<open>Verify\<close> among them, and the update
  succeeds.
\<close>

theorem C1_counterexample:
  "Frozen (test_client True)
   \<and> CheckValidityAndUpdateState (test_lib None)
         (Tendermint_ClientState (test_client True))
         (Tendermint_Header (test_header 2 1000000000 (test_validators [1]))) 5
       = ([Call_SignedHeaderFromProto, Call_ValidatorSetFromProto,
           Call_SignedHeaderFromProto, Call_ValidatorSetFromProto, Call_Verify],
          (Some (Tendermint_ClientState
             ((test_client True)
                \<lparr>LastHeader := test_header 2 1000000000 (test_validators [1])\<rparr>)),
           Some (Tendermint_ConsensusState
             \<lparr>Height = 2, Timestamp = 1000000000, Root = MerkleRoot (tmhash_Sum ''app_hash''),
              ValidatorSet = Some (test_validators [1])\<rparr>),
           None))"
  by (simp add: eval_defs)

text \<open>
  C1 (amended): \<open>CheckValidityAndUpdateState\<close> does not consult the frozen flag. A
  frozen client state makes the same library calls and gets the same error, or none, as
  the same client state with the flag cleared.
\<close>

theorem C1_frozen_flag_not_consulted:
  "fst (CheckValidityAndUpdateState tm (Tendermint_ClientState (cs\<lparr>Frozen := True\<rparr>)) header now)
     = fst (CheckValidityAndUpdateState tm (Tendermint_ClientState (cs\<lparr>Frozen := False\<rparr>)) header now)
   \<and> snd (snd (snd (CheckValidityAndUpdateState tm
          (Tendermint_ClientState (cs\<lparr>Frozen := True\<rparr>)) header now)))
     = snd (snd (snd (CheckValidityAndUpdateState tm
          (Tendermint_ClientState (cs\<lparr>Frozen := False\<rparr>)) header now)))"
proof (cases header)
  case (Tendermint_Header h)
  have "checkValidity tm (cs\<lparr>Frozen := True\<rparr>) h now
          = checkValidity tm (cs\<lparr>Frozen := False\<rparr>) h now"
    by (simp only: checkValidity_Frozen)
  then show ?thesis
    unfolding Tendermint_Header CheckValidityAndUpdateState_Tendermint
    by (simp split: prod.splits option.splits)
qed (simp_all add: CheckValidityAndUpdateState_def)

section \<open>The consensus state of a successful update\<close>

text \<open>
  C2 (as stated, refuted): the fourth component of the consensus state is not the hash
  of the candidate's next validator set. The header of height 2 carries the validator
  set of address 1 and announces the validator set of address 3 as the next one. The
  library accepts it (its validator set hashes to its validators hash, which is the
  next-validators hash of the trusted header below it). The consensus state returned
  holds the validator set of address 1 itself, and that set does not hash to the
  next-validators hash of the candidate.
\<close>

theorem C2_counterexample:
  "CheckValidityAndUpdateState (test_lib None) (Tendermint_ClientState (test_client False))
      (Tendermint_Header rotation_header) 5
     = ([Call_SignedHeaderFromProto, Call_ValidatorSetFromProto,
         Call_SignedHeaderFromProto, Call_ValidatorSetFromProto, Call_Verify],
        (Some (Tendermint_ClientState ((test_client False)\<lparr>LastHeader := rotation_header\<rparr>)),
         Some (Tendermint_ConsensusState
           \<lparr>Height = 2, Timestamp = 1000000000, Root = MerkleRoot (tmhash_Sum ''app_hash''),
            ValidatorSet = Some (test_validators [1])\<rparr>),
         None))
   \<and> NextValidatorsHash (Header (SignedHeader rotation_header))
       = ValidatorSet_Hash (test_validators [3])
   \<and> ValidatorSet_Hash (test_validators [1]) \<noteq> ValidatorSet_Hash (test_validators [3])"
  by (simp add: eval_defs)

text \<open>
  C2 (amended): after a successful \<open>CheckValidityAndUpdateState\<close> the returned
  consensus state has the height and the time of the candidate header, the root made by
  \<open>NewMerkleRoot\<close> from the application hash of its signed header, and as
  \<open>ValidatorSet\<close> the validator set the candidate header carries.
\<close>

theorem C2_consensus_state_of_header:
  assumes "snd (snd (snd (CheckValidityAndUpdateState tm clientState header now))) = None"
  shows "\<exists>h. header = Tendermint_Header h
           \<and> fst (snd (snd (CheckValidityAndUpdateState tm clientState header now)))
             = Some (Tendermint_ConsensusState
                 \<lparr>Height = GetHeight h,
                  Timestamp = GetTime h,
                  Root = NewMerkleRoot (AppHash (Header (SignedHeader h))),
                  ValidatorSet = Header.ValidatorSet h\<rparr>)"
proof -
  from CheckValidityAndUpdateState_success [OF assms]
  obtain cs h where "clientState = Tendermint_ClientState cs" "header = Tendermint_Header h"
    "snd (checkValidity tm cs h now) = None"
    by blast
  then show ?thesis
    by (auto simp: CheckValidityAndUpdateState_Tendermint split: prod.splits option.splits)
qed

text \<open>The amended C2 at the test header of height 3 at 2 s for the validator set of address 3.\<close>

theorem C2_consensus_state_of_header_witness:
  "snd (snd (snd (CheckValidityAndUpdateState (test_lib None)
        (Tendermint_ClientState (test_client False))
        (Tendermint_Header (test_header 3 2000000000 (test_validators [3]))) 5))) = None
   \<and> fst (snd (snd (CheckValidityAndUpdateState (test_lib None)
        (Tendermint_ClientState (test_client False))
        (Tendermint_Header (test_header 3 2000000000 (test_validators [3]))) 5)))
     = Some (Tendermint_ConsensusState
         \<lparr>Height = 3, Timestamp = 2000000000, Root = MerkleRoot (tmhash_Sum ''app_hash''),
          ValidatorSet = Some (test_validators [3])\<rparr>)"
proof -
  have ok: "snd (snd (snd (CheckValidityAndUpdateState (test_lib None)
        (Tendermint_ClientState (test_client False))
        (Tendermint_Header (test_header 3 2000000000 (test_validators [3]))) 5))) = None"
    by (simp add: eval_defs)
  from C2_consensus_state_of_header [OF ok] ok show ?thesis
    by (auto simp: eval_defs)
qed

section \<open>Monotonicity\<close>

text \<open>
  C3: a candidate whose height is at most the latest trusted height, or whose time is at
  most the latest trusted time, is rejected, and no call into the library (so no
  cryptographic verification) has been made by then.
\<close>

theorem C3_monotonicity_before_library:
  assumes "GetHeight h \<le> GetLatestHeight cs \<or> GetTime h \<le> GetLatestTimestamp cs"
  shows "\<exists>err. CheckValidityAndUpdateState tm (Tendermint_ClientState cs) (Tendermint_Header h) now
           = ([], (None, None, Some err))"
proof -
  from assms have "GetHeight h \<le> GetLatestHeight cs
      \<or> Unix (GetTime h) \<le> Unix (GetLatestTimestamp cs)"
    using Unix_mono by blast
  then obtain err where "checkValidity tm cs h now = ([], Some err)"
    using checkValidity_rejects_early [of cs now h tm] by blast
  then show ?thesis
    by (simp add: CheckValidityAndUpdateState_Tendermint)
qed

text \<open>C3 at a candidate of height 1, the height the test client already trusts.\<close>

theorem C3_monotonicity_before_library_witness:
  "(GetHeight (test_header 1 1000000000 (test_validators [1])) \<le> GetLatestHeight (test_client False)
      \<or> GetTime (test_header 1 1000000000 (test_validators [1])) \<le> GetLatestTimestamp (test_client False))
   \<and> (\<exists>err. CheckValidityAndUpdateState (test_lib None) (Tendermint_ClientState (test_client False))
          (Tendermint_Header (test_header 1 1000000000 (test_validators [1]))) 5 = ([], (None, None, Some err)))"
proof -
  have le: "GetHeight (test_header 1 1000000000 (test_validators [1])) \<le> GetLatestHeight (test_client False)
      \<or> GetTime (test_header 1 1000000000 (test_validators [1])) \<le> GetLatestTimestamp (test_client False)"
    by (simp add: eval_defs)
  from le C3_monotonicity_before_library [OF le] show ?thesis
    by blast
qed

section \<open>The time test\<close>

text \<open>
  C4 (the code departs from the claim): the time test compares whole Unix seconds. With
  the latest trusted time at 0 and a candidate of greater height half a second later,
  both trusting-period checks pass and the candidate's time is not at or before the
  latest trusted time, so the claim has it pass the time test. The call is rejected
  there, with the error whose message says that the header's block time is at or before
  the latest one. The comment above the test asks for a header time past the latest
  time, and the trusting-period test before it compares the same two times to the
  nanosecond.
\<close>

theorem C4_later_candidate_rejected:
  "\<not> sint (TrustingPeriod (test_client False))
        \<le> sint (Sub 5 (GetLatestTimestamp (test_client False)))
   \<and> \<not> sint (TrustingPeriod (test_client False))
        \<le> sint (Sub (GetTime (test_header 2 500000000 (test_validators [1])))
                   (GetLatestTimestamp (test_client False)))
   \<and> \<not> GetTime (test_header 2 500000000 (test_validators [1]))
        \<le> GetLatestTimestamp (test_client False)
   \<and> \<not> GetHeight (test_header 2 500000000 (test_validators [1]))
        \<le> GetLatestHeight (test_client False)
   \<and> CheckValidityAndUpdateState (test_lib None) (Tendermint_ClientState (test_client False))
        (Tendermint_Header (test_header 2 500000000 (test_validators [1]))) 5
     = ([], (None, None,
         Some (Wrapf ErrInvalidHeader
           (''header blocktime '' @ leq_sign @ '' latest client state block time (%s ''
              @ leq_sign @ '' %s)'')
           [Arg_Time 500000000, Arg_Time 0])))"
  by (simp add: eval_defs)

section \<open>The boundary of the trusting period\<close>

lemma Sub_at_trusting_period:
  "sint (Sub (Add t d) t) = sint d"
  using sint_Duration_range [of d] by (simp add: sint_Sub Add_def)

lemma Sub_below_trusting_period:
  assumes "\<not> sint d \<le> sint (Sub now t)"
  shows "sint (Sub (Add t d - 1) t) = sint d - 1"
proof -
  have "minDuration \<le> sint (Sub now t)"
    by (rule sint_Duration_range [THEN conjunct1])
  with assms have "minDuration \<le> sint d - 1"
    by linarith
  moreover have "sint d - 1 \<le> maxDuration"
    using sint_Duration_range [of d] by linarith
  ultimately show ?thesis
    by (simp add: sint_Sub Add_def)
qed

text \<open>
  C5: a candidate whose time is exactly the latest trusted time plus the trusting period
  is rejected (before any library call). A candidate one nanosecond earlier never gets
  the error of the header trusting-period test, and it is accepted when everything else
  is in order: the trusting period has not expired at the current time, the time and
  height tests pass, the four conversions succeed and \<open>Verify\<close> accepts.
\<close>

theorem C5_trusting_period_boundary:
  "(GetTime h = Add (GetLatestTimestamp cs) (TrustingPeriod cs) \<longrightarrow>
      (\<exists>err. CheckValidityAndUpdateState tm (Tendermint_ClientState cs) (Tendermint_Header h) now
         = ([], (None, None, Some err))))
   \<and> (GetTime h' = Add (GetLatestTimestamp cs) (TrustingPeriod cs) - 1 \<longrightarrow>
      snd (snd (snd (CheckValidityAndUpdateState tm (Tendermint_ClientState cs)
        (Tendermint_Header h') now)))
      \<noteq> Some (Wrap ErrInvalidHeader
           ''header blocktime is outside trusting period from last client timestamp''))
   \<and> (GetTime h' = Add (GetLatestTimestamp cs) (TrustingPeriod cs) - 1 \<longrightarrow>
      \<not> sint (TrustingPeriod cs) \<le> sint (Sub now (GetLatestTimestamp cs)) \<longrightarrow>
      \<not> Unix (GetTime h') \<le> Unix (GetLatestTimestamp cs) \<longrightarrow>
      \<not> GetHeight h' \<le> GetLatestHeight cs \<longrightarrow>
      SignedHeaderFromProto tm (SignedHeader (LastHeader cs)) = Inr trustedSignedHeader \<longrightarrow>
      ValidatorSetFromProto tm (Header.ValidatorSet (LastHeader cs)) = Inr trustedValset \<longrightarrow>
      SignedHeaderFromProto tm (SignedHeader h') = Inr untrustedSignedHeader \<longrightarrow>
      ValidatorSetFromProto tm (Header.ValidatorSet h') = Inr untrustedValset \<longrightarrow>
      Verify tm (GetChainID cs) trustedSignedHeader trustedValset untrustedSignedHeader
        untrustedValset (TrustingPeriod cs) now (MaxClockDrift cs)
        (ToTendermint (TrustLevel cs)) = None \<longrightarrow>
      snd (snd (snd (CheckValidityAndUpdateState tm (Tendermint_ClientState cs)
        (Tendermint_Header h') now))) = None)"
proof (intro conjI impI)
  assume "GetTime h = Add (GetLatestTimestamp cs) (TrustingPeriod cs)"
  then have "sint (TrustingPeriod cs) \<le> sint (Sub (GetTime h) (GetLatestTimestamp cs))"
    by (simp add: Sub_at_trusting_period)
  then obtain err where "checkValidity tm cs h now = ([], Some err)"
    using checkValidity_rejects_early [of cs now h tm] by blast
  then show "\<exists>err. CheckValidityAndUpdateState tm (Tendermint_ClientState cs)
      (Tendermint_Header h) now = ([], (None, None, Some err))"
    by (simp add: CheckValidityAndUpdateState_Tendermint)
next
  assume at: "GetTime h' = Add (GetLatestTimestamp cs) (TrustingPeriod cs) - 1"
  show "snd (snd (snd (CheckValidityAndUpdateState tm (Tendermint_ClientState cs)
        (Tendermint_Header h') now)))
      \<noteq> Some (Wrap ErrInvalidHeader
           ''header blocktime is outside trusting period from last client timestamp'')"
  proof (cases "sint (TrustingPeriod cs) \<le> sint (Sub now (GetLatestTimestamp cs))")
    case True
    then show ?thesis
      by (simp add: CheckValidityAndUpdateState_error checkValidity_def)
  next
    case False
    with at have "\<not> sint (TrustingPeriod cs) \<le> sint (Sub (GetTime h') (GetLatestTimestamp cs))"
      by (simp add: Sub_below_trusting_period)
    with False show ?thesis
      by (simp add: CheckValidityAndUpdateState_error checkValidity_def
            split: sum.splits option.splits)
  qed
next
  assume at: "GetTime h' = Add (GetLatestTimestamp cs) (TrustingPeriod cs) - 1"
    and now_ok: "\<not> sint (TrustingPeriod cs) \<le> sint (Sub now (GetLatestTimestamp cs))"
    and rest: "\<not> Unix (GetTime h') \<le> Unix (GetLatestTimestamp cs)"
      "\<not> GetHeight h' \<le> GetLatestHeight cs"
      "SignedHeaderFromProto tm (SignedHeader (LastHeader cs)) = Inr trustedSignedHeader"
      "ValidatorSetFromProto tm (Header.ValidatorSet (LastHeader cs)) = Inr trustedValset"
      "SignedHeaderFromProto tm (SignedHeader h') = Inr untrustedSignedHeader"
      "ValidatorSetFromProto tm (Header.ValidatorSet h') = Inr untrustedValset"
      "Verify tm (GetChainID cs) trustedSignedHeader trustedValset untrustedSignedHeader
        untrustedValset (TrustingPeriod cs) now (MaxClockDrift cs)
        (ToTendermint (TrustLevel cs)) = None"
  from at now_ok
  have "\<not> sint (TrustingPeriod cs) \<le> sint (Sub (GetTime h') (GetLatestTimestamp cs))"
    by (simp add: Sub_below_trusting_period)
  with now_ok rest
  show "snd (snd (snd (CheckValidityAndUpdateState tm (Tendermint_ClientState cs)
        (Tendermint_Header h') now))) = None"
    by (simp add: CheckValidityAndUpdateState_error checkValidity_def)
qed

text \<open>
  C5 at the test client (latest time 0, trusting period 1209600000000000 ns): the
  candidate at 1209600000000000 is rejected, the one at 1209599999999999 is accepted.
\<close>

theorem C5_trusting_period_boundary_witness:
  "GetTime (test_header 2 1209600000000000 (test_validators [1]))
     = Add (GetLatestTimestamp (test_client False)) (TrustingPeriod (test_client False))
   \<and> (\<exists>err. CheckValidityAndUpdateState (test_lib None)
          (Tendermint_ClientState (test_client False))
          (Tendermint_Header (test_header 2 1209600000000000 (test_validators [1]))) 5
        = ([], (None, None, Some err)))
   \<and> GetTime (test_header 2 1209599999999999 (test_validators [1]))
     = Add (GetLatestTimestamp (test_client False)) (TrustingPeriod (test_client False)) - 1
   \<and> snd (snd (snd (CheckValidityAndUpdateState (test_lib None)
          (Tendermint_ClientState (test_client False))
          (Tendermint_Header (test_header 2 1209599999999999 (test_validators [1]))) 5)))
     = None"
proof -
  let ?cs = "test_client False"
  let ?h = "test_header 2 1209600000000000 (test_validators [1])"
  let ?h' = "test_header 2 1209599999999999 (test_validators [1])"
  have at: "GetTime ?h = Add (GetLatestTimestamp ?cs) (TrustingPeriod ?cs)"
    by (simp add: eval_defs)
  have below: "GetTime ?h' = Add (GetLatestTimestamp ?cs) (TrustingPeriod ?cs) - 1"
    by (simp add: eval_defs)
  have now_ok: "\<not> sint (TrustingPeriod ?cs) \<le> sint (Sub 5 (GetLatestTimestamp ?cs))"
    by (simp add: eval_defs)
  have later: "\<not> Unix (GetTime ?h') \<le> Unix (GetLatestTimestamp ?cs)"
    by (simp add: eval_defs)
  have higher: "\<not> GetHeight ?h' \<le> GetLatestHeight ?cs"
    by (simp add: eval_defs)
  have conv:
    "SignedHeaderFromProto (test_lib None) (SignedHeader (LastHeader ?cs))
       = Inr (SignedHeader (LastHeader ?cs))"
    "ValidatorSetFromProto (test_lib None) (Header.ValidatorSet (LastHeader ?cs))
       = Inr (test_validators [1])"
    "SignedHeaderFromProto (test_lib None) (SignedHeader ?h') = Inr (SignedHeader ?h')"
    "ValidatorSetFromProto (test_lib None) (Header.ValidatorSet ?h')
       = Inr (test_validators [1])"
    by (simp_all add: test_defs)
  have verdict:
    "Verify (test_lib None) (GetChainID ?cs) (SignedHeader (LastHeader ?cs))
       (test_validators [1]) (SignedHeader ?h') (test_validators [1])
       (TrustingPeriod ?cs) 5 (MaxClockDrift ?cs) (ToTendermint (TrustLevel ?cs)) = None"
    by (simp add: test_defs)
  note boundary = C5_trusting_period_boundary
    [where cs = ?cs and h = ?h and h' = ?h' and tm = "test_lib None" and now = 5
       and trustedSignedHeader = "SignedHeader (LastHeader ?cs)"
       and trustedValset = "test_validators [1]"
       and untrustedSignedHeader = "SignedHeader ?h'"
       and untrustedValset = "test_validators [1]"]
  from boundary at have rejected:
    "\<exists>err. CheckValidityAndUpdateState (test_lib None) (Tendermint_ClientState ?cs)
       (Tendermint_Header ?h) 5 = ([], (None, None, Some err))"
    by blast
  from boundary below now_ok later higher conv verdict have accepted:
    "snd (snd (snd (CheckValidityAndUpdateState (test_lib None) (Tendermint_ClientState ?cs)
       (Tendermint_Header ?h') 5))) = None"
    by blast
  from at rejected below accepted show ?thesis
    by blast
qed

section \<open>Replaying an accepted header\<close>

text \<open>A header that passed \<open>checkValidity\<close> passed each of the four temporal checks.\<close>

lemma checkValidity_passed:
  assumes "snd (checkValidity tm cs h now) = None"
  shows "\<not> sint (TrustingPeriod cs) \<le> sint (Sub now (GetLatestTimestamp cs))"
    and "\<not> sint (TrustingPeriod cs) \<le> sint (Sub (GetTime h) (GetLatestTimestamp cs))"
    and "\<not> Unix (GetTime h) \<le> Unix (GetLatestTimestamp cs)"
    and "\<not> GetHeight h \<le> GetLatestHeight cs"
  using assms checkValidity_rejects_early [of cs now h tm]
  by (metis option.distinct(1) snd_conv)+

text \<open>
  Against itself as the latest header, an accepted header is inside the trusting period,
  and the trusting period has not expired at the time of the first call.
\<close>

lemma replay_not_outside_trusting_period:
  assumes "\<not> sint d \<le> sint (Sub t u)" and "\<not> Unix t \<le> Unix u"
  shows "\<not> sint d \<le> sint (Sub t t)"
proof -
  from assms(2) have "u < t"
    using Unix_mono [of t u] by linarith
  then have "1 \<le> sint (Sub t u)"
    by (simp add: sint_Sub minDuration_def maxDuration_def)
  moreover have "sint (Sub t t) = 0"
    by (simp add: sint_Sub minDuration_def maxDuration_def)
  ultimately show ?thesis
    using assms(1) by linarith
qed

lemma replay_not_expired:
  assumes "\<not> sint d \<le> sint (Sub now u)" and "\<not> Unix t \<le> Unix u"
  shows "\<not> sint d \<le> sint (Sub now t)"
proof -
  from assms(2) have "u < t"
    using Unix_mono [of t u] by linarith
  then have "sint (Sub now t) \<le> sint (Sub now u)"
    by (simp add: sint_Sub)
  with assms(1) show ?thesis
    by linarith
qed

text \<open>
  C6: when an update succeeds and the same candidate is offered again to the returned
  client state, at any current time, the call fails before any library call, with a
  temporal error: the trusting-period-expired error or the block-time error. At the
  current time of the first call it is the block-time error.
\<close>

theorem C6_replay_rejected:
  assumes "CheckValidityAndUpdateState tm clientState header now
             = (calls, (Some clientState', consensusState, None))"
  shows "\<exists>cs h err. clientState = Tendermint_ClientState cs \<and> header = Tendermint_Header h
           \<and> CheckValidityAndUpdateState tm clientState' header now'
               = ([], (None, None, Some err))
           \<and> (err = Wrapf ErrTrustingPeriodExpired
                 ''current timestamp minus the latest trusted client state timestamp is greater than or equal to the trusting period (%s >= %s)''
                 [Arg_Duration (Sub now' (GetTime h)), Arg_Duration (TrustingPeriod cs)]
               \<or> err = Wrapf ErrInvalidHeader
                 (''header blocktime '' @ leq_sign @ '' latest client state block time (%s ''
                    @ leq_sign @ '' %s)'')
                 [Arg_Time (GetTime h), Arg_Time (GetTime h)])
           \<and> (now' = now \<longrightarrow>
                err = Wrapf ErrInvalidHeader
                 (''header blocktime '' @ leq_sign @ '' latest client state block time (%s ''
                    @ leq_sign @ '' %s)'')
                 [Arg_Time (GetTime h), Arg_Time (GetTime h)])"
proof -
  from assms have "snd (snd (snd (CheckValidityAndUpdateState tm clientState header now))) = None"
    by simp
  from CheckValidityAndUpdateState_success [OF this]
  obtain cs h where cs: "clientState = Tendermint_ClientState cs"
    and h: "header = Tendermint_Header h"
    and ok: "snd (checkValidity tm cs h now) = None"
    by blast
  from assms ok have cs': "clientState' = Tendermint_ClientState (cs\<lparr>LastHeader := h\<rparr>)"
    unfolding cs h CheckValidityAndUpdateState_Tendermint
    by (auto split: prod.splits option.splits)
  let ?cs' = "cs\<lparr>LastHeader := h\<rparr>"
  have latest: "GetLatestTimestamp ?cs' = GetTime h" "TrustingPeriod ?cs' = TrustingPeriod cs"
    by (simp_all add: GetLatestTimestamp_def)
  from checkValidity_passed [OF ok]
  have inside: "\<not> sint (TrustingPeriod cs) \<le> sint (Sub (GetTime h) (GetTime h))"
    and fresh: "\<not> sint (TrustingPeriod cs) \<le> sint (Sub now (GetTime h))"
    using replay_not_outside_trusting_period replay_not_expired by blast+
  show ?thesis
  proof (cases "sint (TrustingPeriod cs) \<le> sint (Sub now' (GetTime h))")
    case True
    with fresh have "now' \<noteq> now"
      by blast
    with True show ?thesis
      unfolding cs h cs' CheckValidityAndUpdateState_Tendermint
      by (simp add: checkValidity_def latest)
  next
    case False
    with inside show ?thesis
      unfolding cs h cs' CheckValidityAndUpdateState_Tendermint
      by (simp add: checkValidity_def latest)
  qed
qed

text \<open>C6 at the test client and the candidate of height 2 at 1 s, replayed at the same current time.\<close>

theorem C6_replay_rejected_witness:
  "CheckValidityAndUpdateState (test_lib None) (Tendermint_ClientState (test_client False))
      (Tendermint_Header (test_header 2 1000000000 (test_validators [1]))) 5
     = ([Call_SignedHeaderFromProto, Call_ValidatorSetFromProto,
         Call_SignedHeaderFromProto, Call_ValidatorSetFromProto, Call_Verify],
        (Some (Tendermint_ClientState
           ((test_client False)
              \<lparr>LastHeader := test_header 2 1000000000 (test_validators [1])\<rparr>)),
         Some (Tendermint_ConsensusState
           \<lparr>Height = 2, Timestamp = 1000000000, Root = MerkleRoot (tmhash_Sum ''app_hash''),
            ValidatorSet = Some (test_validators [1])\<rparr>),
         None))
   \<and> CheckValidityAndUpdateState (test_lib None)
        (Tendermint_ClientState
           ((test_client False)
              \<lparr>LastHeader := test_header 2 1000000000 (test_validators [1])\<rparr>))
        (Tendermint_Header (test_header 2 1000000000 (test_validators [1]))) 5
     = ([], (None, None,
         Some (Wrapf ErrInvalidHeader
           (''header blocktime '' @ leq_sign @ '' latest client state block time (%s ''
              @ leq_sign @ '' %s)'')
           [Arg_Time 1000000000, Arg_Time 1000000000])))"
proof -
  let ?h = "test_header 2 1000000000 (test_validators [1])"
  have first: "CheckValidityAndUpdateState (test_lib None)
      (Tendermint_ClientState (test_client False)) (Tendermint_Header ?h) 5
     = ([Call_SignedHeaderFromProto, Call_ValidatorSetFromProto,
         Call_SignedHeaderFromProto, Call_ValidatorSetFromProto, Call_Verify],
        (Some (Tendermint_ClientState ((test_client False)\<lparr>LastHeader := ?h\<rparr>)),
         Some (Tendermint_ConsensusState
           \<lparr>Height = 2, Timestamp = 1000000000, Root = MerkleRoot (tmhash_Sum ''app_hash''),
            ValidatorSet = Some (test_validators [1])\<rparr>),
         None))"
    by (simp add: eval_defs)
  have time: "GetTime ?h = 1000000000"
    by (simp add: eval_defs)
  from C6_replay_rejected [OF first, of 5]
  have "CheckValidityAndUpdateState (test_lib None)
        (Tendermint_ClientState ((test_client False)\<lparr>LastHeader := ?h\<rparr>))
        (Tendermint_Header ?h) 5
     = ([], (None, None,
         Some (Wrapf ErrInvalidHeader
           (''header blocktime '' @ leq_sign @ '' latest client state block time (%s ''
              @ leq_sign @ '' %s)'')
           [Arg_Time (GetTime ?h), Arg_Time (GetTime ?h)])))"
    by auto
  with first show ?thesis
    unfolding time by blast
qed

section \<open>Errors of the verifier\<close>

text \<open>
  C7 (as stated, refuted): the verifier's error is not handed back unchanged. With a
  library whose \<open>Verify\<close> fails with "invalid commit", the caller receives that error
  wrapped under "failed to verify header", which is a different error value.
\<close>

theorem C7_counterexample:
  "CheckValidityAndUpdateState (test_lib (Some ''invalid commit''))
      (Tendermint_ClientState (test_client False))
      (Tendermint_Header (test_header 2 1000000000 (test_validators [1]))) 5
     = ([Call_SignedHeaderFromProto, Call_ValidatorSetFromProto,
         Call_SignedHeaderFromProto, Call_ValidatorSetFromProto, Call_Verify],
        (None, None, Some (Wrap (Tendermint_error ''invalid commit'') ''failed to verify header'')))
   \<and> Wrap (Tendermint_error ''invalid commit'') ''failed to verify header''
       \<noteq> Tendermint_error ''invalid commit''"
  by (simp add: eval_defs)

text \<open>
  An error returned after \<open>Verify\<close> was called is the error of that call, made on the
  four converted values, wrapped under "failed to verify header".
\<close>

lemma checkValidity_Verify_failed:
  assumes "Call_Verify \<in> set (fst (checkValidity tm cs h now))"
      and "snd (checkValidity tm cs h now) = Some e"
  shows "\<exists>trustedSignedHeader trustedValset untrustedSignedHeader untrustedValset err.
           SignedHeaderFromProto tm (SignedHeader (LastHeader cs)) = Inr trustedSignedHeader
         \<and> ValidatorSetFromProto tm (Header.ValidatorSet (LastHeader cs)) = Inr trustedValset
         \<and> SignedHeaderFromProto tm (SignedHeader h) = Inr untrustedSignedHeader
         \<and> ValidatorSetFromProto tm (Header.ValidatorSet h) = Inr untrustedValset
         \<and> Verify tm (GetChainID cs) trustedSignedHeader trustedValset untrustedSignedHeader
              untrustedValset (TrustingPeriod cs) now (MaxClockDrift cs)
              (ToTendermint (TrustLevel cs)) = Some err
         \<and> e = Wrap (Tendermint_error err) ''failed to verify header''
         \<and> Cause e = Tendermint_error err"
  using assms
  by (auto simp: checkValidity_def split: if_splits sum.splits option.splits)

text \<open>
  When the four temporal checks pass, the four conversions succeed and \<open>Verify\<close> fails
  on their results, \<open>checkValidity\<close> returns that failure wrapped under "failed to
  verify header".
\<close>

lemma checkValidity_Verify_fails:
  assumes "\<not> sint (TrustingPeriod cs) \<le> sint (Sub now (GetLatestTimestamp cs))"
      and "\<not> sint (TrustingPeriod cs) \<le> sint (Sub (GetTime h) (GetLatestTimestamp cs))"
      and "\<not> Unix (GetTime h) \<le> Unix (GetLatestTimestamp cs)"
      and "\<not> GetHeight h \<le> GetLatestHeight cs"
      and "SignedHeaderFromProto tm (SignedHeader (LastHeader cs)) = Inr trustedSignedHeader"
      and "ValidatorSetFromProto tm (Header.ValidatorSet (LastHeader cs)) = Inr trustedValset"
      and "SignedHeaderFromProto tm (SignedHeader h) = Inr untrustedSignedHeader"
      and "ValidatorSetFromProto tm (Header.ValidatorSet h) = Inr untrustedValset"
      and "Verify tm (GetChainID cs) trustedSignedHeader trustedValset untrustedSignedHeader
             untrustedValset (TrustingPeriod cs) now (MaxClockDrift cs)
             (ToTendermint (TrustLevel cs)) = Some err"
  shows "checkValidity tm cs h now
           = ([Call_SignedHeaderFromProto, Call_ValidatorSetFromProto,
               Call_SignedHeaderFromProto, Call_ValidatorSetFromProto, Call_Verify],
              Some (Wrap (Tendermint_error err) ''failed to verify header''))"
  using assms by (simp add: checkValidity_def)

text \<open>
  C7 (amended): on every input on which the verifier is invoked and fails (the four
  temporal checks pass, the four conversions succeed, and \<open>Verify\<close> on their results
  returns an error), \<open>CheckValidityAndUpdateState\<close> returns nil, nil and the verifier's
  error wrapped by \<open>sdkerrors.Wrap\<close> under the description "failed to verify header";
  the verifier's own error is its cause. Conversely, an error returned after \<open>Verify\<close>
  was called is such a wrapped failure of that call.
\<close>

theorem C7_verifier_error_wrapped:
  "(\<not> sint (TrustingPeriod cs) \<le> sint (Sub now (GetLatestTimestamp cs)) \<longrightarrow>
    \<not> sint (TrustingPeriod cs) \<le> sint (Sub (GetTime h) (GetLatestTimestamp cs)) \<longrightarrow>
    \<not> Unix (GetTime h) \<le> Unix (GetLatestTimestamp cs) \<longrightarrow>
    \<not> GetHeight h \<le> GetLatestHeight cs \<longrightarrow>
    SignedHeaderFromProto tm (SignedHeader (LastHeader cs)) = Inr trustedSignedHeader \<longrightarrow>
    ValidatorSetFromProto tm (Header.ValidatorSet (LastHeader cs)) = Inr trustedValset \<longrightarrow>
    SignedHeaderFromProto tm (SignedHeader h) = Inr untrustedSignedHeader \<longrightarrow>
    ValidatorSetFromProto tm (Header.ValidatorSet h) = Inr untrustedValset \<longrightarrow>
    Verify tm (GetChainID cs) trustedSignedHeader trustedValset untrustedSignedHeader
      untrustedValset (TrustingPeriod cs) now (MaxClockDrift cs)
      (ToTendermint (TrustLevel cs)) = Some err \<longrightarrow>
    CheckValidityAndUpdateState tm (Tendermint_ClientState cs) (Tendermint_Header h) now
      = ([Call_SignedHeaderFromProto, Call_ValidatorSetFromProto,
          Call_SignedHeaderFromProto, Call_ValidatorSetFromProto, Call_Verify],
         (None, None, Some (Wrap (Tendermint_error err) ''failed to verify header'')))
    \<and> Cause (Wrap (Tendermint_error err) ''failed to verify header'') = Tendermint_error err)
   \<and> (Call_Verify \<in> set (fst (CheckValidityAndUpdateState tm (Tendermint_ClientState cs)
          (Tendermint_Header h) now)) \<longrightarrow>
      snd (snd (snd (CheckValidityAndUpdateState tm (Tendermint_ClientState cs)
          (Tendermint_Header h) now))) = Some e \<longrightarrow>
      (\<exists>tsh tvs ush uvs verr.
           SignedHeaderFromProto tm (SignedHeader (LastHeader cs)) = Inr tsh
         \<and> ValidatorSetFromProto tm (Header.ValidatorSet (LastHeader cs)) = Inr tvs
         \<and> SignedHeaderFromProto tm (SignedHeader h) = Inr ush
         \<and> ValidatorSetFromProto tm (Header.ValidatorSet h) = Inr uvs
         \<and> Verify tm (GetChainID cs) tsh tvs ush uvs (TrustingPeriod cs) now (MaxClockDrift cs)
              (ToTendermint (TrustLevel cs)) = Some verr
         \<and> e = Wrap (Tendermint_error verr) ''failed to verify header''))"
proof (intro conjI impI)
  assume "\<not> sint (TrustingPeriod cs) \<le> sint (Sub now (GetLatestTimestamp cs))"
    "\<not> sint (TrustingPeriod cs) \<le> sint (Sub (GetTime h) (GetLatestTimestamp cs))"
    "\<not> Unix (GetTime h) \<le> Unix (GetLatestTimestamp cs)"
    "\<not> GetHeight h \<le> GetLatestHeight cs"
    "SignedHeaderFromProto tm (SignedHeader (LastHeader cs)) = Inr trustedSignedHeader"
    "ValidatorSetFromProto tm (Header.ValidatorSet (LastHeader cs)) = Inr trustedValset"
    "SignedHeaderFromProto tm (SignedHeader h) = Inr untrustedSignedHeader"
    "ValidatorSetFromProto tm (Header.ValidatorSet h) = Inr untrustedValset"
    "Verify tm (GetChainID cs) trustedSignedHeader trustedValset untrustedSignedHeader
       untrustedValset (TrustingPeriod cs) now (MaxClockDrift cs)
       (ToTendermint (TrustLevel cs)) = Some err"
  then have "checkValidity tm cs h now
      = ([Call_SignedHeaderFromProto, Call_ValidatorSetFromProto,
          Call_SignedHeaderFromProto, Call_ValidatorSetFromProto, Call_Verify],
         Some (Wrap (Tendermint_error err) ''failed to verify header''))"
    by (rule checkValidity_Verify_fails)
  then show "CheckValidityAndUpdateState tm (Tendermint_ClientState cs) (Tendermint_Header h) now
      = ([Call_SignedHeaderFromProto, Call_ValidatorSetFromProto,
          Call_SignedHeaderFromProto, Call_ValidatorSetFromProto, Call_Verify],
         (None, None, Some (Wrap (Tendermint_error err) ''failed to verify header'')))"
    by (simp add: CheckValidityAndUpdateState_Tendermint)
next
  show "Cause (Wrap (Tendermint_error err) ''failed to verify header'') = Tendermint_error err"
    by simp
next
  have calls: "fst (CheckValidityAndUpdateState tm (Tendermint_ClientState cs)
      (Tendermint_Header h) now) = fst (checkValidity tm cs h now)"
    by (simp add: CheckValidityAndUpdateState_Tendermint split: prod.splits option.splits)
  assume "Call_Verify \<in> set (fst (CheckValidityAndUpdateState tm (Tendermint_ClientState cs)
      (Tendermint_Header h) now))"
    and "snd (snd (snd (CheckValidityAndUpdateState tm (Tendermint_ClientState cs)
      (Tendermint_Header h) now))) = Some e"
  then have "Call_Verify \<in> set (fst (checkValidity tm cs h now))"
    and "snd (checkValidity tm cs h now) = Some e"
    unfolding calls CheckValidityAndUpdateState_error by blast+
  from checkValidity_Verify_failed [OF this]
  show "\<exists>tsh tvs ush uvs verr.
           SignedHeaderFromProto tm (SignedHeader (LastHeader cs)) = Inr tsh
         \<and> ValidatorSetFromProto tm (Header.ValidatorSet (LastHeader cs)) = Inr tvs
         \<and> SignedHeaderFromProto tm (SignedHeader h) = Inr ush
         \<and> ValidatorSetFromProto tm (Header.ValidatorSet h) = Inr uvs
         \<and> Verify tm (GetChainID cs) tsh tvs ush uvs (TrustingPeriod cs) now (MaxClockDrift cs)
              (ToTendermint (TrustLevel cs)) = Some verr
         \<and> e = Wrap (Tendermint_error verr) ''failed to verify header''"
    by blast
qed

text \<open>
  The amended C7 at the test client, the test header of height 3 at 2 s for the validator
  set of address 3, and a library whose signature checks fail with "invalid commit".
\<close>

theorem C7_verifier_error_wrapped_witness:
  "\<not> sint (TrustingPeriod (test_client False))
        \<le> sint (Sub 5 (GetLatestTimestamp (test_client False)))
   \<and> \<not> sint (TrustingPeriod (test_client False))
        \<le> sint (Sub (GetTime (test_header 3 2000000000 (test_validators [3])))
                   (GetLatestTimestamp (test_client False)))
   \<and> \<not> Unix (GetTime (test_header 3 2000000000 (test_validators [3])))
        \<le> Unix (GetLatestTimestamp (test_client False))
   \<and> \<not> GetHeight (test_header 3 2000000000 (test_validators [3]))
        \<le> GetLatestHeight (test_client False)
   \<and> Verify (test_lib (Some ''invalid commit'')) (GetChainID (test_client False))
        (SignedHeader (LastHeader (test_client False))) (test_validators [1])
        (SignedHeader (test_header 3 2000000000 (test_validators [3]))) (test_validators [3])
        (TrustingPeriod (test_client False)) 5 (MaxClockDrift (test_client False))
        (ToTendermint (TrustLevel (test_client False))) = Some ''invalid commit''
   \<and> CheckValidityAndUpdateState (test_lib (Some ''invalid commit''))
        (Tendermint_ClientState (test_client False))
        (Tendermint_Header (test_header 3 2000000000 (test_validators [3]))) 5
     = ([Call_SignedHeaderFromProto, Call_ValidatorSetFromProto,
         Call_SignedHeaderFromProto, Call_ValidatorSetFromProto, Call_Verify],
        (None, None, Some (Wrap (Tendermint_error ''invalid commit'') ''failed to verify header'')))
   \<and> Call_Verify \<in> set (fst (CheckValidityAndUpdateState (test_lib (Some ''invalid commit''))
        (Tendermint_ClientState (test_client False))
        (Tendermint_Header (test_header 3 2000000000 (test_validators [3]))) 5))"
proof -
  let ?cs = "test_client False"
  let ?h = "test_header 3 2000000000 (test_validators [3])"
  let ?tm = "test_lib (Some ''invalid commit'')"
  have now_ok: "\<not> sint (TrustingPeriod ?cs) \<le> sint (Sub 5 (GetLatestTimestamp ?cs))"
    by (simp add: eval_defs)
  have inside: "\<not> sint (TrustingPeriod ?cs) \<le> sint (Sub (GetTime ?h) (GetLatestTimestamp ?cs))"
    by (simp add: eval_defs)
  have later: "\<not> Unix (GetTime ?h) \<le> Unix (GetLatestTimestamp ?cs)"
    by (simp add: eval_defs)
  have higher: "\<not> GetHeight ?h \<le> GetLatestHeight ?cs"
    by (simp add: eval_defs)
  have conv:
    "SignedHeaderFromProto ?tm (SignedHeader (LastHeader ?cs)) = Inr (SignedHeader (LastHeader ?cs))"
    "ValidatorSetFromProto ?tm (Header.ValidatorSet (LastHeader ?cs)) = Inr (test_validators [1])"
    "SignedHeaderFromProto ?tm (SignedHeader ?h) = Inr (SignedHeader ?h)"
    "ValidatorSetFromProto ?tm (Header.ValidatorSet ?h) = Inr (test_validators [3])"
    by (simp_all add: test_defs)
  have fails: "Verify ?tm (GetChainID ?cs) (SignedHeader (LastHeader ?cs)) (test_validators [1])
      (SignedHeader ?h) (test_validators [3]) (TrustingPeriod ?cs) 5 (MaxClockDrift ?cs)
      (ToTendermint (TrustLevel ?cs)) = Some ''invalid commit''"
    by (simp add: test_defs)
  note wrapped = C7_verifier_error_wrapped
    [where cs = ?cs and h = ?h and tm = ?tm and now = 5
       and trustedSignedHeader = "SignedHeader (LastHeader ?cs)"
       and trustedValset = "test_validators [1]"
       and untrustedSignedHeader = "SignedHeader ?h"
       and untrustedValset = "test_validators [3]"
       and err = "''invalid commit''"
       and e = "Wrap (Tendermint_error ''invalid commit'') ''failed to verify header''"]
  from wrapped now_ok inside later higher conv fails
  have result: "CheckValidityAndUpdateState ?tm (Tendermint_ClientState ?cs) (Tendermint_Header ?h) 5
     = ([Call_SignedHeaderFromProto, Call_ValidatorSetFromProto,
         Call_SignedHeaderFromProto, Call_ValidatorSetFromProto, Call_Verify],
        (None, None, Some (Wrap (Tendermint_error ''invalid commit'') ''failed to verify header'')))"
    by blast
  then have reached: "Call_Verify \<in> set (fst (CheckValidityAndUpdateState ?tm
      (Tendermint_ClientState ?cs) (Tendermint_Header ?h) 5))"
    by simp
  from now_ok inside later higher fails result reached show ?thesis
    by blast
qed

section \<open>All or nothing\<close>

text \<open>
  The value of the test client struct in the test memory is the test client.
\<close>

lemmas load_defs =
  load_SignedHeader_def load_ValidatorSet_def load_Header_def load_ClientState_def
  load_ConsensusState_def

lemma load_test_client: "load_ClientState test_memory (test_client_ref frozen) = test_client frozen"
  by (simp add: load_defs test_memory_def test_client_ref_def test_header_ref_def test_defs)

text \<open>
  With a library that writes nothing, the functions on structs with pointers leave the
  memory as it was and return what the functions on values return on the values of their
  arguments.
\<close>

lemma checkValidity_mem_read_only:
  assumes "SignedHeaderFromProto_writes tm = (\<lambda>mem pb. mem)"
      and "ValidatorSetFromProto_writes tm = (\<lambda>mem vp. mem)"
      and "Verify_writes tm = (\<lambda>mem. mem)"
  shows "checkValidity_mem tm mem clientState header now
           = (mem, checkValidity (tendermint.truncate tm) (load_ClientState mem clientState)
                     (load_Header mem header) now)"
  by (simp add: checkValidity_mem_def checkValidity_def assms Let_def tendermint.truncate_def
        GetLatestTimestamp_def GetLatestHeight_def GetChainID_def load_ClientState_def
        load_Header_def
        split: sum.splits option.splits)

lemma CheckValidityAndUpdateState_mem_read_only:
  assumes "SignedHeaderFromProto_writes tm = (\<lambda>mem pb. mem)"
      and "ValidatorSetFromProto_writes tm = (\<lambda>mem vp. mem)"
      and "Verify_writes tm = (\<lambda>mem. mem)"
      and "CheckValidityAndUpdateState_mem tm mem clientState header now
             = (mem', calls, (clientState', consensusState', err))"
  shows "mem' = mem"
    and "CheckValidityAndUpdateState (tendermint.truncate tm) (value_ClientState mem clientState)
           (value_Header mem header) now
         = (calls,
            (map_option (value_ClientState mem) clientState',
             Option.bind consensusState' (value_ConsensusState mem),
             err))"
proof -
  show "mem' = mem"
  proof (cases clientState)
    case (Tendermint_struct cs)
    show ?thesis
    proof (cases header)
      case (Tendermint_struct h)
      with assms \<open>clientState = Tendermint_struct cs\<close> show ?thesis
        by (auto simp: CheckValidityAndUpdateState_mem_def checkValidity_mem_read_only
              split: prod.splits option.splits)
    qed (use assms Tendermint_struct in \<open>simp_all add: CheckValidityAndUpdateState_mem_def\<close>)
  qed (use assms in \<open>simp_all add: CheckValidityAndUpdateState_mem_def\<close>)
  show "CheckValidityAndUpdateState (tendermint.truncate tm) (value_ClientState mem clientState)
           (value_Header mem header) now
         = (calls,
            (map_option (value_ClientState mem) clientState',
             Option.bind consensusState' (value_ConsensusState mem),
             err))"
  proof (cases clientState)
    case (Tendermint_struct cs)
    show ?thesis
    proof (cases header)
      case (Tendermint_struct h)
      with assms \<open>clientState = Tendermint_struct cs\<close> show ?thesis
        by (auto simp: CheckValidityAndUpdateState_mem_def checkValidity_mem_read_only
              CheckValidityAndUpdateState_Tendermint update_mem_def load_defs
              GetHeight_def GetTime_def
              split: prod.splits option.splits)
    next
      case Nil_interface
      with assms \<open>clientState = Tendermint_struct cs\<close> show ?thesis
        by (auto simp: CheckValidityAndUpdateState_mem_def CheckValidityAndUpdateState_def)
    next
      case (Other_struct ty)
      with assms \<open>clientState = Tendermint_struct cs\<close> show ?thesis
        by (auto simp: CheckValidityAndUpdateState_mem_def CheckValidityAndUpdateState_def)
    qed
  next
    case Nil_interface
    with assms show ?thesis
      by (auto simp: CheckValidityAndUpdateState_mem_def CheckValidityAndUpdateState_def)
  next
    case (Other_struct ty)
    with assms show ?thesis
      by (auto simp: CheckValidityAndUpdateState_mem_def CheckValidityAndUpdateState_def)
  qed
qed

text \<open>
  C8: whenever \<open>CheckValidityAndUpdateState\<close> returns an error, the client state and
  the consensus state it returns are both nil, and the input client state is unchanged:
  the memory is as it was before the call, and so is the value of the client state that
  was passed in. The library is taken to keep to the contract the specification gives
  its collaborators, that of pure functions: it writes to nothing it is handed.
\<close>

theorem C8_error_changes_nothing:
  assumes "SignedHeaderFromProto_writes tm = (\<lambda>mem pb. mem)"
      and "ValidatorSetFromProto_writes tm = (\<lambda>mem vp. mem)"
      and "Verify_writes tm = (\<lambda>mem. mem)"
      and "CheckValidityAndUpdateState_mem tm mem clientState header now
             = (mem', calls, (clientState', consensusState', Some err))"
  shows "clientState' = None \<and> consensusState' = None \<and> mem' = mem
       \<and> value_ClientState mem' clientState = value_ClientState mem clientState"
proof -
  have "mem' = mem"
    using assms by (rule CheckValidityAndUpdateState_mem_read_only(1))
  moreover have "clientState' = None \<and> consensusState' = None"
  proof (cases clientState)
    case (Tendermint_struct cs)
    show ?thesis
    proof (cases header)
      case (Tendermint_struct h)
      with assms(4) \<open>clientState = Tendermint_struct cs\<close> show ?thesis
        by (auto simp: CheckValidityAndUpdateState_mem_def split: prod.splits option.splits)
    qed (use assms(4) Tendermint_struct in \<open>auto simp: CheckValidityAndUpdateState_mem_def\<close>)
  qed (use assms(4) in \<open>auto simp: CheckValidityAndUpdateState_mem_def\<close>)
  ultimately show ?thesis
    by simp
qed

text \<open>
  C8 at the test client and the header struct of address 3, with a library that writes
  nothing and whose signature checks fail: all five calls are made, the error comes
  back alone, and the memory is the test memory.
\<close>

theorem C8_error_changes_nothing_witness:
  "SignedHeaderFromProto_writes (test_lib_mem (Some ''invalid commit'')) = (\<lambda>mem pb. mem)
   \<and> ValidatorSetFromProto_writes (test_lib_mem (Some ''invalid commit'')) = (\<lambda>mem vp. mem)
   \<and> Verify_writes (test_lib_mem (Some ''invalid commit'')) = (\<lambda>mem. mem)
   \<and> CheckValidityAndUpdateState_mem (test_lib_mem (Some ''invalid commit'')) test_memory
        (Tendermint_struct (test_client_ref False)) (Tendermint_struct (test_header_ref 3)) 5
     = (test_memory,
        [Call_SignedHeaderFromProto, Call_ValidatorSetFromProto,
         Call_SignedHeaderFromProto, Call_ValidatorSetFromProto, Call_Verify],
        (None, None, Some (Wrap (Tendermint_error ''invalid commit'') ''failed to verify header'')))
   \<and> value_ClientState test_memory (Tendermint_struct (test_client_ref False))
     = Tendermint_ClientState (test_client False)"
proof -
  let ?tm = "test_lib_mem (Some ''invalid commit'')"
  have ro: "SignedHeaderFromProto_writes ?tm = (\<lambda>mem pb. mem)"
    "ValidatorSetFromProto_writes ?tm = (\<lambda>mem vp. mem)"
    "Verify_writes ?tm = (\<lambda>mem. mem)"
    by (simp_all add: test_lib_mem_def)
  obtain mem' calls clientState' consensusState' err
    where run: "CheckValidityAndUpdateState_mem ?tm test_memory
        (Tendermint_struct (test_client_ref False)) (Tendermint_struct (test_header_ref 3)) 5
      = (mem', calls, (clientState', consensusState', err))"
    by (metis prod_cases3)
  have calls: "calls = [Call_SignedHeaderFromProto, Call_ValidatorSetFromProto,
      Call_SignedHeaderFromProto, Call_ValidatorSetFromProto, Call_Verify]"
    and err: "err = Some (Wrap (Tendermint_error ''invalid commit'') ''failed to verify header'')"
    using run by (simp_all add: mem_defs eval_defs)
  from C8_error_changes_nothing [OF ro run [unfolded err]]
  have "clientState' = None" "consensusState' = None" "mem' = test_memory"
    by simp_all
  with run calls err ro show ?thesis
    by (simp add: load_test_client)
qed

section \<open>The client state of a successful update\<close>

text \<open>
  C9: after a successful \<open>CheckValidityAndUpdateState\<close> the returned client state is
  the given one with \<open>LastHeader\<close> replaced by the candidate header; chain id, trust
  level, trusting period, unbonding period, maximum clock drift and the frozen flag are
  those of the given client state.
\<close>

theorem C9_only_last_header_replaced:
  assumes "snd (snd (snd (CheckValidityAndUpdateState tm clientState header now))) = None"
  shows "\<exists>cs h cs'. clientState = Tendermint_ClientState cs \<and> header = Tendermint_Header h
           \<and> fst (snd (CheckValidityAndUpdateState tm clientState header now))
               = Some (Tendermint_ClientState cs')
           \<and> cs' = cs\<lparr>LastHeader := h\<rparr>
           \<and> LastHeader cs' = h
           \<and> ClientState.ChainID cs' = ClientState.ChainID cs
           \<and> TrustLevel cs' = TrustLevel cs
           \<and> TrustingPeriod cs' = TrustingPeriod cs
           \<and> UnbondingPeriod cs' = UnbondingPeriod cs
           \<and> MaxClockDrift cs' = MaxClockDrift cs
           \<and> Frozen cs' = Frozen cs"
proof -
  from CheckValidityAndUpdateState_success [OF assms]
  obtain cs h where "clientState = Tendermint_ClientState cs" "header = Tendermint_Header h"
    "snd (checkValidity tm cs h now) = None"
    by blast
  then show ?thesis
    by (auto simp: CheckValidityAndUpdateState_Tendermint split: prod.splits option.splits)
qed

text \<open>C9 at the frozen test client and a candidate of height 3 at 2 s.\<close>

theorem C9_only_last_header_replaced_witness:
  "snd (snd (snd (CheckValidityAndUpdateState (test_lib None)
      (Tendermint_ClientState (test_client True))
      (Tendermint_Header (test_header 3 2000000000 (test_validators [1]))) 7))) = None
   \<and> fst (snd (CheckValidityAndUpdateState (test_lib None)
      (Tendermint_ClientState (test_client True))
      (Tendermint_Header (test_header 3 2000000000 (test_validators [1]))) 7))
     = Some (Tendermint_ClientState
         ((test_client True)\<lparr>LastHeader := test_header 3 2000000000 (test_validators [1])\<rparr>))"
proof -
  have ok: "snd (snd (snd (CheckValidityAndUpdateState (test_lib None)
      (Tendermint_ClientState (test_client True))
      (Tendermint_Header (test_header 3 2000000000 (test_validators [1]))) 7))) = None"
    by (simp add: eval_defs)
  from C9_only_last_header_replaced [OF ok] ok show ?thesis
    by auto
qed

section \<open>Arguments of another dynamic type\<close>

text \<open>
  C10: a client state that is not a Tendermint client state gets
  \<open>ErrInvalidClientType\<close>, whatever the header is; a header that is not a Tendermint
  header, given with a Tendermint client state, gets \<open>ErrInvalidHeader\<close>. In both
  cases the client state and the consensus state returned are nil and nothing has been
  checked or called: the result depends on neither the current time nor the library.
\<close>

theorem C10_wrong_dynamic_type:
  "((\<forall>cs. clientState \<noteq> Tendermint_ClientState cs) \<longrightarrow>
      CheckValidityAndUpdateState tm clientState header now
        = ([], (None, None,
            Some (Wrapf ErrInvalidClientType ''expected type %T, got %T''
              [Arg_Type ''types.ClientState'', Arg_Type (type_of_ClientState clientState)]))))
   \<and> ((\<forall>h. header' \<noteq> Tendermint_Header h) \<longrightarrow>
      CheckValidityAndUpdateState tm (Tendermint_ClientState cs') header' now
        = ([], (None, None,
            Some (Wrapf ErrInvalidHeader ''expected type %T, got %T''
              [Arg_Type ''types.Header'', Arg_Type (type_of_Header header')]))))"
proof (intro conjI impI)
  assume "\<forall>cs. clientState \<noteq> Tendermint_ClientState cs"
  then show "CheckValidityAndUpdateState tm clientState header now
        = ([], (None, None,
            Some (Wrapf ErrInvalidClientType ''expected type %T, got %T''
              [Arg_Type ''types.ClientState'', Arg_Type (type_of_ClientState clientState)])))"
    by (cases clientState) (simp_all add: CheckValidityAndUpdateState_def)
next
  assume "\<forall>h. header' \<noteq> Tendermint_Header h"
  then show "CheckValidityAndUpdateState tm (Tendermint_ClientState cs') header' now
        = ([], (None, None,
            Some (Wrapf ErrInvalidHeader ''expected type %T, got %T''
              [Arg_Type ''types.Header'', Arg_Type (type_of_Header header')])))"
    by (cases header') (simp_all add: CheckValidityAndUpdateState_def)
qed

text \<open>C10 at a client state of another package, and at a nil header.\<close>

theorem C10_wrong_dynamic_type_witness:
  "(\<forall>cs. Other_ClientState ''localhost.ClientState'' \<noteq> Tendermint_ClientState cs)
   \<and> CheckValidityAndUpdateState (test_lib None) (Other_ClientState ''localhost.ClientState'')
        (Tendermint_Header (test_header 2 1000000000 (test_validators [1]))) 5
      = ([], (None, None,
          Some (Wrapf ErrInvalidClientType ''expected type %T, got %T''
            [Arg_Type ''types.ClientState'', Arg_Type ''localhost.ClientState''])))
   \<and> (\<forall>h. Nil_Header \<noteq> Tendermint_Header h)
   \<and> CheckValidityAndUpdateState (test_lib None) (Tendermint_ClientState (test_client False))
        Nil_Header 5
      = ([], (None, None,
          Some (Wrapf ErrInvalidHeader ''expected type %T, got %T''
            [Arg_Type ''types.Header'', Arg_Type ''<nil>''])))"
proof -
  have not_client: "\<forall>cs. Other_ClientState ''localhost.ClientState'' \<noteq> Tendermint_ClientState cs"
    by simp
  have not_header: "\<forall>h. Nil_Header \<noteq> Tendermint_Header h"
    by simp
  note wrong = C10_wrong_dynamic_type
    [where clientState = "Other_ClientState ''localhost.ClientState''"
       and header = "Tendermint_Header (test_header 2 1000000000 (test_validators [1]))"
       and header' = Nil_Header and cs' = "test_client False"
       and tm = "test_lib None" and now = 5]
  from wrong not_client not_header show ?thesis
    by simp
qed

end
